theory Spec2Isabelle
  imports Complex_Main
begin

section \<open>Ballancier: the physics step and its collision detector\<close>

text \<open>
  The development embeds two source files: \<^verbatim>\<open>js/collision.mjs\<close> (the closest point
  on a segment and the circle-against-obstacles detector) and the physics module that
  exports \<^verbatim>\<open>step\<close>.

  JavaScript numbers are modelled as real numbers: every input is a finite number and
  the arithmetic is exact. The source guards each of its divisions but one; the
  unguarded one (\<^verbatim>\<open>vx / speed\<close>, \<^verbatim>\<open>vy / speed\<close>) is modelled with an explicit
  not-a-number result, since HOL's \<open>a / 0 = 0\<close> is not what JavaScript computes.
\<close>

subsection \<open>Data\<close>

text \<open>
  An obstacle is an object with a \<^verbatim>\<open>type\<close> discriminator. A segment carries its end
  points and an optional \<^verbatim>\<open>thickness\<close>, a rectangle carries \<^verbatim>\<open>x, y, w, h\<close>. \<^verbatim>\<open>step\<close>
  reads \<^verbatim>\<open>centerX\<close>, \<^verbatim>\<open>centerY\<close> and \<^verbatim>\<open>angularVelocity\<close> from the source of the hit it
  resolves without looking at its \<^verbatim>\<open>type\<close>, so both shapes carry a rotation centre and an
  optional \<^verbatim>\<open>angularVelocity\<close>. Any other \<^verbatim>\<open>type\<close> is skipped by the detector and is
  never the source of a hit.
\<close>

datatype obstacle =
    Segment real real real real "real option" real real "real option"
      \<comment> \<open>\<^verbatim>\<open>x1 y1 x2 y2 thickness centerX centerY angularVelocity\<close>\<close>
  | Rect real real real real real real "real option"
      \<comment> \<open>\<^verbatim>\<open>x y w h centerX centerY angularVelocity\<close>\<close>
  | Other

text \<open>The object \<^verbatim>\<open>{ x, y, t }\<close> of a closest point; the rectangle branch stores no \<^verbatim>\<open>t\<close>.\<close>

record closest =
  cp_x :: real
  cp_y :: real
  cp_t :: "real option"

record hit =
  hit_source :: obstacle
  hit_kind :: string
  hit_cp :: closest
  hit_dist :: real
  hit_nx :: real
  hit_ny :: real
  hit_penetration :: real

text \<open>
  The state handed to \<^verbatim>\<open>step\<close>: \<^verbatim>\<open>vx\<close> and \<^verbatim>\<open>vy\<close> may be absent
  (\<^verbatim>\<open>typeof state.vx === 'number'\<close> fails), the other fields are numbers.
\<close>

record body_state =
  st_x :: real
  st_y :: real
  st_dx :: real
  st_dy :: real
  st_speed :: real
  st_r :: real
  st_vx :: "real option"
  st_vy :: "real option"

record bounds_rec =
  width :: real
  height :: real

text \<open>The options object: every property may be absent.\<close>

record step_opts =
  opt_gravity :: "real option"
  opt_friction :: "real option"
  opt_bounds :: "bounds_rec option"
  opt_stopThreshold :: "real option"
  opt_restitution :: "real option"
  opt_tangentialFriction :: "real option"
  opt_tangentialRetention :: "real option"

text \<open>
  The object \<^verbatim>\<open>step\<close> returns. The direction components are quotients by the speed:
  \<open>None\<close> stands for the not-a-number that JavaScript yields for \<^verbatim>\<open>0 / 0\<close>.
\<close>

record step_result =
  res_x :: real
  res_y :: real
  res_dx :: "real option"
  res_dy :: "real option"
  res_speed :: real
  res_vx :: real
  res_vy :: real
  contact :: bool

subsection \<open>\<^verbatim>\<open>collision.mjs\<close>\<close>

definition closestPointOnSegment ::
  "real \<Rightarrow> real \<Rightarrow> real \<Rightarrow> real \<Rightarrow> real \<Rightarrow> real \<Rightarrow> closest" where
  "closestPointOnSegment px py x1 y1 x2 y2 =
     (let vx = x2 - x1; vy = y2 - y1;
          denom = vx * vx + vy * vy
      in if denom = 0 then \<lparr>cp_x = x1, cp_y = y1, cp_t = Some 0\<rparr>
         else
           (let t = ((px - x1) * vx + (py - y1) * vy) / denom;
                t = max 0 (min 1 t)
            in \<lparr>cp_x = x1 + vx * t, cp_y = y1 + vy * t, cp_t = Some t\<rparr>))"

text \<open>
  The body of the detector's loop for one obstacle: the hits it pushes (none or one).
  \<^verbatim>\<open>o.thickness || 0\<close> is 0 for an absent thickness; \<^verbatim>\<open>Math.sqrt(d2) || 0\<close> is the
  square root itself on numbers.
\<close>

definition collide :: "real \<Rightarrow> real \<Rightarrow> real \<Rightarrow> obstacle \<Rightarrow> hit list" where
  "collide cx cy cr ob =
     (case ob of
        Segment x1 y1 x2 y2 thickness centerX centerY angularVelocity \<Rightarrow>
          (let cp = closestPointOnSegment cx cy x1 y1 x2 y2;
               dxp = cx - cp_x cp; dyp = cy - cp_y cp;
               dist2 = dxp * dxp + dyp * dyp;
               dist = sqrt dist2;
               rEff = cr + (case thickness of None \<Rightarrow> 0 | Some th \<Rightarrow> th) / 2
           in if dist2 \<le> rEff * rEff then
                (let nx = (if dist = 0 then 0 else dxp / dist);
                     ny = (if dist = 0 then 0 else dyp / dist)
                 in [\<lparr>hit_source = ob, hit_kind = ''segment'', hit_cp = cp, hit_dist = dist,
                       hit_nx = nx, hit_ny = ny, hit_penetration = rEff - dist\<rparr>])
              else [])
      | Rect x y w h centerX centerY angularVelocity \<Rightarrow>
          (let closestX = max x (min cx (x + w));
               closestY = max y (min cy (y + h));
               dx = cx - closestX; dy = cy - closestY;
               d2 = dx * dx + dy * dy
           in if d2 \<le> cr * cr then
                (let dist = sqrt d2;
                     nx = (if dist = 0 then 0 else dx / dist);
                     ny = (if dist = 0 then 0 else dy / dist)
                 in [\<lparr>hit_source = ob, hit_kind = ''rect'',
                       hit_cp = \<lparr>cp_x = closestX, cp_y = closestY, cp_t = None\<rparr>,
                       hit_dist = dist, hit_nx = nx, hit_ny = ny,
                       hit_penetration = cr - dist\<rparr>])
              else [])
      | Other \<Rightarrow> [])"

primrec checkCircleCollisions :: "real \<Rightarrow> real \<Rightarrow> real \<Rightarrow> obstacle list \<Rightarrow> hit list" where
  "checkCircleCollisions cx cy cr [] = []"
| "checkCircleCollisions cx cy cr (ob # obstacles) =
     collide cx cy cr ob @ checkCircleCollisions cx cy cr obstacles"

subsection \<open>The physics module: \<^verbatim>\<open>step\<close>\<close>

text \<open>The defaults of the options (\<^verbatim>\<open>opts.gravity ?? 0.2\<close> and the lines after it).\<close>

definition gravity :: "step_opts \<Rightarrow> real" where
  "gravity opts = (case opt_gravity opts of None \<Rightarrow> 0.2 | Some v \<Rightarrow> v)"

definition friction :: "step_opts \<Rightarrow> real" where
  "friction opts = (case opt_friction opts of None \<Rightarrow> 0.995 | Some v \<Rightarrow> v)"

definition bounds :: "step_opts \<Rightarrow> bounds_rec" where
  "bounds opts = (case opt_bounds opts of None \<Rightarrow> \<lparr>width = 0, height = 0\<rparr> | Some b \<Rightarrow> b)"

definition stopThreshold :: "step_opts \<Rightarrow> real" where
  "stopThreshold opts = (case opt_stopThreshold opts of None \<Rightarrow> 0.02 | Some v \<Rightarrow> v)"

definition restitution :: "step_opts \<Rightarrow> real" where
  "restitution opts = (case opt_restitution opts of None \<Rightarrow> 0.3 | Some v \<Rightarrow> v)"

definition tangentialFriction :: "step_opts \<Rightarrow> real" where
  "tangentialFriction opts =
     (case opt_tangentialFriction opts of None \<Rightarrow> friction opts | Some v \<Rightarrow> v)"

definition tangentialRetention :: "step_opts \<Rightarrow> real" where
  "tangentialRetention opts = (case opt_tangentialRetention opts of None \<Rightarrow> 0.6 | Some v \<Rightarrow> v)"

text \<open>
  \<^verbatim>\<open>Math.hypot\<close> of two numbers, and the quotient of two numbers: for a zero divisor
  JavaScript yields no finite number (not-a-number for \<^verbatim>\<open>0 / 0\<close>), here \<open>None\<close>.
\<close>

definition hypot :: "real \<Rightarrow> real \<Rightarrow> real" where
  "hypot a b = sqrt (a * a + b * b)"

definition js_div :: "real \<Rightarrow> real \<Rightarrow> real option" where
  "js_div a b = (if b = 0 then None else Some (a / b))"

text \<open>
  The working velocity: the persisted \<^verbatim>\<open>vx\<close>, \<^verbatim>\<open>vy\<close> when they are numbers, else
  direction times speed. It is read before the bounds handling runs.
\<close>

definition vx0 :: "body_state \<Rightarrow> real" where
  "vx0 state = (case st_vx state of Some v \<Rightarrow> v | None \<Rightarrow> st_dx state * st_speed state)"

definition vy0 :: "body_state \<Rightarrow> real" where
  "vy0 state = (case st_vy state of Some v \<Rightarrow> v | None \<Rightarrow> st_dy state * st_speed state)"

text \<open>The four lines of bounds handling: they assign the local \<^verbatim>\<open>dx\<close> and \<^verbatim>\<open>dy\<close>.\<close>

definition reflectBounds ::
  "real \<Rightarrow> real \<Rightarrow> real \<Rightarrow> real \<Rightarrow> real \<Rightarrow> bounds_rec \<Rightarrow> real \<times> real" where
  "reflectBounds x y dx dy r bnds =
     (let dx = (if x \<ge> width bnds - r \<and> dx > 0 then - \<bar>dx\<bar> else dx);
          dx = (if x \<le> r \<and> dx < 0 then \<bar>dx\<bar> else dx);
          dy = (if y \<ge> height bnds - r \<and> dy > 0 then - \<bar>dy\<bar> else dy);
          dy = (if y \<le> r \<and> dy < 0 then \<bar>dy\<bar> else dy)
      in (dx, dy))"

text \<open>
  \<^verbatim>\<open>hits.type\<close>: \<^verbatim>\<open>hits\<close> is an array, and an array has no property \<^verbatim>\<open>type\<close>, so the
  lookup is undefined whatever the hits are.
\<close>

definition hits_type :: "hit list \<Rightarrow> string option" where
  "hits_type hits = None"

text \<open>
  \<^verbatim>\<open>hits.sort((a, b) => (b.penetration || 0) - (a.penetration || 0)); h = hits[0]\<close>:
  a stable sort by descending penetration, then the first element. It is called on a
  non-empty list only.
\<close>

definition dominant :: "hit list \<Rightarrow> hit" where
  "dominant hits = hd (sort_key (\<lambda>a. - hit_penetration a) hits)"

text \<open>The unit tangent \<^verbatim>\<open>(-ny, nx) / (Math.hypot(tx, ty) || 1)\<close>.\<close>

definition tangent :: "real \<Rightarrow> real \<Rightarrow> real \<times> real" where
  "tangent nx ny =
     (let tx = - ny; ty = nx;
          tlen = (if hypot tx ty = 0 then 1 else hypot tx ty)
      in (tx / tlen, ty / tlen))"

text \<open>
  The properties \<^verbatim>\<open>centerX\<close>, \<^verbatim>\<open>centerY\<close>, \<^verbatim>\<open>angularVelocity\<close> of an obstacle whose
  \<^verbatim>\<open>angularVelocity\<close> is defined, whatever its shape.
\<close>

fun rotation :: "obstacle \<Rightarrow> (real \<times> real \<times> real) option" where
  "rotation (Segment x1 y1 x2 y2 thickness centerX centerY (Some angularVelocity)) =
     Some (centerX, centerY, angularVelocity)"
| "rotation (Rect x y w h centerX centerY (Some angularVelocity)) =
     Some (centerX, centerY, angularVelocity)"
| "rotation ob = None"

text \<open>
  The velocity of the obstacle at the contact point: zero unless the source of the hit
  has an \<^verbatim>\<open>angularVelocity\<close> that is defined and not 0.
\<close>

definition obstacleVelocity :: "hit \<Rightarrow> real \<times> real" where
  "obstacleVelocity h =
     (case rotation (hit_source h) of
        Some (centerX, centerY, angularVelocity) \<Rightarrow>
          if angularVelocity \<noteq> 0 then
            (let dx_center = cp_x (hit_cp h) - centerX;
                 dy_center = cp_y (hit_cp h) - centerY
             in (- angularVelocity * dy_center, angularVelocity * dx_center))
          else (0, 0)
      | None \<Rightarrow> (0, 0))"

text \<open>The normal velocity scalar \<^verbatim>\<open>new_vn_scalar\<close>.\<close>

definition new_vn_scalar ::
  "real \<Rightarrow> real \<Rightarrow> real \<Rightarrow> real \<Rightarrow> real \<Rightarrow> real \<Rightarrow> real \<Rightarrow> real \<Rightarrow> real" where
  "new_vn_scalar vx0' vy0' grav rest nx ny obsVx obsVy =
     (let v_rel_x = vx0' - obsVx;
          v_rel_y = vy0' - obsVy;
          vDotN_rel = v_rel_x * nx + v_rel_y * ny;
          vObsDotN = obsVx * nx + obsVy * ny;
          vxFor = vx0'; vyFor = vy0' + grav;
          vDotN_gravity = vxFor * nx + vyFor * ny;
          ENERGY_DAMPING_THRESHOLD = - 0.10
      in if vDotN_rel < ENERGY_DAMPING_THRESHOLD then - vDotN_rel * rest + vObsDotN
         else if vDotN_gravity > 0 then vDotN_gravity
         else vObsDotN)"

text \<open>The tangential speed \<^verbatim>\<open>vAlong\<close>, after the clamp of a small uphill creep.\<close>

definition vAlong ::
  "real \<Rightarrow> real \<Rightarrow> real \<Rightarrow> real \<Rightarrow> real \<Rightarrow> real \<Rightarrow> real \<Rightarrow> real \<Rightarrow> real \<Rightarrow> real" where
  "vAlong vx0' vy0' grav tFriction tRetention tx ty obsVx obsVy =
     (let v_rel_x = vx0' - obsVx;
          v_rel_y = vy0' - obsVy;
          gravityAlong = grav * ty;
          vObsDotT = obsVx * tx + obsVy * ty;
          vDotT_rel_base = v_rel_x * tx + v_rel_y * ty;
          vAlong_rel = vDotT_rel_base + gravityAlong;
          vAlong_rel = vAlong_rel * tFriction;
          vAlong_rel = vAlong_rel * (1 - tRetention) + vDotT_rel_base * tRetention;
          v = vAlong_rel + vObsDotT
      in if \<bar>v\<bar> < 0.02 \<and> v * ty < 0 then 0 else v)"

text \<open>
  The outgoing velocity: tangent times \<^verbatim>\<open>vAlong\<close> plus the normal component, with a
  negative normal component subtracted. Here the subtraction is exact and leaves a normal
  component of exactly 0 for a unit normal; the source computes it in double precision,
  where a rounding residue of either sign remains.
\<close>

definition outgoing ::
  "real \<Rightarrow> real \<Rightarrow> real \<Rightarrow> real \<Rightarrow> real \<Rightarrow> real \<Rightarrow> real \<times> real" where
  "outgoing tx ty v nx ny vn =
     (let new_vn_x = nx * vn; new_vn_y = ny * vn;
          outVx = tx * v + new_vn_x;
          outVy = ty * v + new_vn_y;
          outDotN = outVx * nx + outVy * ny
      in if outDotN < 0 then (outVx - nx * outDotN, outVy - ny * outDotN)
         else (outVx, outVy))"

text \<open>
  The block that ends both branches: below the stop threshold everything is zeroed,
  else speed and direction are recomputed from the velocity. It returns
  \<^verbatim>\<open>(dx, dy, speed, vx, vy)\<close>.
\<close>

definition commit ::
  "real \<Rightarrow> real \<Rightarrow> real \<Rightarrow> real option \<times> real option \<times> real \<times> real \<times> real" where
  "commit vx vy stopThr =
     (let newSpeed = hypot vx vy
      in if newSpeed < stopThr then (Some 0, Some 0, 0, 0, 0)
         else (let speed = newSpeed
               in (js_div vx speed, js_div vy speed, speed, vx, vy)))"

definition step :: "body_state \<Rightarrow> obstacle list \<Rightarrow> step_opts \<Rightarrow> step_result" where
  "step state obstacles opts =
     (let x = st_x state; y = st_y state; dx = st_dx state; dy = st_dy state;
          speed = st_speed state; r = st_r state;
          vx = vx0 state; vy = vy0 state;
          (dx, dy) = reflectBounds x y dx dy r (bounds opts);
          vxFor = vx; vyFor = vy + gravity opts;
          newX = x + vxFor; newY = y + vyFor;
          hits = checkCircleCollisions newX newY r obstacles;
          isInContact = (hits \<noteq> [])
      in if isInContact then
           (let newY = (if hits_type hits = Some ''rect'' then newY - gravity opts else newY);
                h = dominant hits;
                nx = hit_nx h; ny = hit_ny h;
                pen = max 0 (hit_penetration h);
                newX = newX + nx * pen;
                newY = newY + ny * pen;
                (tx, ty) = tangent nx ny;
                (obsVx, obsVy) = obstacleVelocity h;
                vn = new_vn_scalar vx vy (gravity opts) (restitution opts) nx ny obsVx obsVy;
                v = vAlong vx vy (gravity opts) (tangentialFriction opts)
                      (tangentialRetention opts) tx ty obsVx obsVy;
                (outVx, outVy) = outgoing tx ty v nx ny vn;
                (dx, dy, speed, vx, vy) = commit outVx outVy (stopThreshold opts)
            in \<lparr>res_x = newX, res_y = newY, res_dx = dx, res_dy = dy, res_speed = speed,
                res_vx = vx, res_vy = vy, contact = isInContact\<rparr>)
         else
           (let (dx, dy, speed, vx, vy) = commit vxFor vyFor (stopThreshold opts)
            in \<lparr>res_x = newX, res_y = newY, res_dx = dx, res_dy = dy, res_speed = speed,
                res_vx = vx, res_vy = vy, contact = isInContact\<rparr>))"

subsection \<open>Notions the properties are stated with\<close>

text \<open>
  The value of \<^verbatim>\<open>hits\<close> inside \<^verbatim>\<open>step\<close>: what the detector reports at the
  gravity-advanced tentative position \<^verbatim>\<open>(x + vx, y + vy + gravity)\<close>.
\<close>

definition tentativeHits :: "body_state \<Rightarrow> obstacle list \<Rightarrow> step_opts \<Rightarrow> hit list" where
  "tentativeHits state obstacles opts =
     checkCircleCollisions (st_x state + vx0 state) (st_y state + (vy0 state + gravity opts))
       (st_r state) obstacles"

text \<open>
  The invariant of a body state, as the specification words it: the speed is the length of
  the velocity and the direction is the velocity's unit vector, or else direction, speed
  and velocity are all zero.
\<close>

definition body_invariant :: "step_result \<Rightarrow> bool" where
  "body_invariant s \<longleftrightarrow>
     (res_speed s = hypot (res_vx s) (res_vy s) \<and> res_speed s \<noteq> 0 \<and>
      res_dx s = Some (res_vx s / res_speed s) \<and> res_dy s = Some (res_vy s / res_speed s))
     \<or> (res_dx s = Some 0 \<and> res_dy s = Some 0 \<and> res_speed s = 0 \<and>
        res_vx s = 0 \<and> res_vy s = 0)"

text \<open>
  What the detector promises for one obstacle, given the closest point \<open>(qx, qy)\<close> of
  the obstacle to the body centre \<open>(cx, cy)\<close> and the effective radius \<open>rEff\<close>: whether a
  hit with this source is among \<open>hits\<close>, and what every such hit records. The detector
  compares squared lengths, so the test is against the magnitude of \<open>rEff\<close>.
\<close>

definition hit_contract ::
  "hit list \<Rightarrow> obstacle \<Rightarrow> real \<Rightarrow> real \<Rightarrow> real \<Rightarrow> real \<Rightarrow> real \<Rightarrow> bool" where
  "hit_contract hits ob cx cy qx qy rEff \<longleftrightarrow>
     (let d = hypot (cx - qx) (cy - qy)
      in ((\<exists>h \<in> set hits. hit_source h = ob) \<longleftrightarrow> d \<le> \<bar>rEff\<bar>) \<and>
         (0 \<le> rEff \<longrightarrow> ((\<exists>h \<in> set hits. hit_source h = ob) \<longleftrightarrow> d \<le> rEff)) \<and>
         (\<forall>h \<in> set hits. hit_source h = ob \<longrightarrow>
            cp_x (hit_cp h) = qx \<and> cp_y (hit_cp h) = qy \<and>
            hit_penetration h = rEff - d \<and>
            (0 \<le> rEff \<longrightarrow> 0 \<le> hit_penetration h) \<and>
            (d \<noteq> 0 \<longrightarrow> hit_nx h = (cx - qx) / d \<and> hit_ny h = (cy - qy) / d \<and>
                       (hit_nx h)\<^sup>2 + (hit_ny h)\<^sup>2 = 1) \<and>
            (d = 0 \<longrightarrow> hit_nx h = 0 \<and> hit_ny h = 0)))"

text \<open>
  A scene to run the code on: a body of radius 15 falling at speed 2 onto a horizontal
  platform of thickness 10 at height 100, under a rectangular ledge at height 97, with
  gravity 1 and every other option at its default. The tentative position is
  \<open>(50, 83)\<close>.
\<close>

abbreviation falling_body :: body_state where
  "falling_body \<equiv> \<lparr>st_x = 50, st_y = 80, st_dx = 0, st_dy = 1, st_speed = 2, st_r = 15,
     st_vx = Some 0, st_vy = Some 2\<rparr>"

abbreviation platform :: obstacle where
  "platform \<equiv> Segment 0 100 100 100 (Some 10) 50 100 None"

abbreviation ledge :: obstacle where
  "ledge \<equiv> Rect 0 97 100 10 0 0 None"

abbreviation unit_gravity :: step_opts where
  "unit_gravity \<equiv> \<lparr>opt_gravity = Some 1, opt_friction = None, opt_bounds = None,
     opt_stopThreshold = None, opt_restitution = None, opt_tangentialFriction = None,
     opt_tangentialRetention = None\<rparr>"

abbreviation platform_hit :: hit where
  "platform_hit \<equiv> \<lparr>hit_source = platform, hit_kind = ''segment'',
     hit_cp = \<lparr>cp_x = 50, cp_y = 100, cp_t = Some (1 / 2)\<rparr>, hit_dist = 17,
     hit_nx = 0, hit_ny = - 1, hit_penetration = 3\<rparr>"

abbreviation ledge_hit :: hit where
  "ledge_hit \<equiv> \<lparr>hit_source = ledge, hit_kind = ''rect'',
     hit_cp = \<lparr>cp_x = 50, cp_y = 97, cp_t = None\<rparr>, hit_dist = 14,
     hit_nx = 0, hit_ny = - 1, hit_penetration = 1\<rparr>"

text \<open>
  Two more scenes, both with gravity 1 and a tangential friction of 1. In the first the
  platform turns about \<open>(50, 100)\<close> with angular velocity \<open>1/50\<close> and the body rides on it
  at \<open>x = 60\<close>, moving down with the surface, which recedes from it there. In the second a
  body creeps sideways at speed \<open>1/100\<close> on the platform at rest.
\<close>

abbreviation spinning_platform :: obstacle where
  "spinning_platform \<equiv> Segment 0 100 100 100 (Some 10) 50 100 (Some (1 / 50))"

abbreviation carried_body :: body_state where
  "carried_body \<equiv> \<lparr>st_x = 59, st_y = 409 / 5, st_dx = 1, st_dy = 0, st_speed = 1, st_r = 15,
     st_vx = Some 1, st_vy = Some (1 / 5)\<rparr>"

abbreviation creeping_body :: body_state where
  "creeping_body \<equiv> \<lparr>st_x = 4999 / 100, st_y = 82, st_dx = 1, st_dy = 0, st_speed = 1 / 100,
     st_r = 15, st_vx = Some (1 / 100), st_vy = Some 0\<rparr>"

abbreviation smooth_opts :: step_opts where
  "smooth_opts \<equiv> \<lparr>opt_gravity = Some 1, opt_friction = None, opt_bounds = None,
     opt_stopThreshold = None, opt_restitution = None, opt_tangentialFriction = Some 1,
     opt_tangentialRetention = None\<rparr>"

abbreviation carried_hit :: hit where
  "carried_hit \<equiv> \<lparr>hit_source = spinning_platform,
     hit_kind = ''segment'', hit_cp = \<lparr>cp_x = 60, cp_y = 100, cp_t = Some (3 / 5)\<rparr>,
     hit_dist = 17, hit_nx = 0, hit_ny = - 1, hit_penetration = 3\<rparr>"

section \<open>Properties\<close>

subsection \<open>The closest point on a segment\<close>

lemma clamp_nearest:
  fixes s t0 :: real
  assumes "0 \<le> s" "s \<le> 1"
  shows "(max 0 (min 1 t0) - t0)\<^sup>2 \<le> (s - t0)\<^sup>2"
proof -
  have "\<bar>max 0 (min 1 t0) - t0\<bar> \<le> \<bar>s - t0\<bar>" using assms by (auto simp: max_def min_def)
  then show ?thesis by (simp add: abs_le_square_iff)
qed

lemma sq_dist_param:
  fixes a b u v s t0 :: real
  assumes "t0 * (u * u + v * v) = a * u + b * v"
  shows "(a - u * s) * (a - u * s) + (b - v * s) * (b - v * s)
         = a * a + b * b - t0\<^sup>2 * (u * u + v * v) + (u * u + v * v) * (s - t0)\<^sup>2"
proof -
  have "(a - u * s) * (a - u * s) + (b - v * s) * (b - v * s)
        = a * a + b * b - 2 * s * (a * u + b * v) + s\<^sup>2 * (u * u + v * v)"
    by (simp add: power2_eq_square algebra_simps)
  also have "\<dots> = a * a + b * b - 2 * s * (t0 * (u * u + v * v)) + s\<^sup>2 * (u * u + v * v)"
    using assms by simp
  also have "\<dots> = a * a + b * b - t0\<^sup>2 * (u * u + v * v) + (u * u + v * v) * (s - t0)\<^sup>2"
    by (simp add: power2_eq_square algebra_simps)
  finally show ?thesis .
qed

lemma closest_sq_minimal:
  fixes px py x1 y1 x2 y2 s :: real
  assumes ne: "(x2 - x1) * (x2 - x1) + (y2 - y1) * (y2 - y1) \<noteq> 0"
    and s: "0 \<le> s" "s \<le> 1"
  defines "c \<equiv> closestPointOnSegment px py x1 y1 x2 y2"
  shows "(px - cp_x c) * (px - cp_x c) + (py - cp_y c) * (py - cp_y c)
         \<le> (px - (x1 + (x2 - x1) * s)) * (px - (x1 + (x2 - x1) * s))
           + (py - (y1 + (y2 - y1) * s)) * (py - (y1 + (y2 - y1) * s))"
proof -
  define u where "u = x2 - x1"
  define v where "v = y2 - y1"
  define a where "a = px - x1"
  define b where "b = py - y1"
  define D where "D = u * u + v * v"
  define t0 where "t0 = (a * u + b * v) / D"
  define t where "t = max 0 (min 1 t0)"
  have D0: "D \<noteq> 0" using ne by (simp add: D_def u_def v_def)
  have Dpos: "0 \<le> D" by (simp add: D_def)
  have t0D: "t0 * (u * u + v * v) = a * u + b * v" using D0 by (simp add: t0_def D_def)
  have cx: "cp_x c = x1 + u * t" and cy: "cp_y c = y1 + v * t"
    using ne by (simp_all add: c_def closestPointOnSegment_def Let_def t_def t0_def D_def u_def v_def a_def b_def)
  have L: "(px - cp_x c) * (px - cp_x c) + (py - cp_y c) * (py - cp_y c)
           = (a - u * t) * (a - u * t) + (b - v * t) * (b - v * t)"
    by (simp add: cx cy a_def b_def algebra_simps)
  have R: "(px - (x1 + (x2 - x1) * s)) * (px - (x1 + (x2 - x1) * s))
           + (py - (y1 + (y2 - y1) * s)) * (py - (y1 + (y2 - y1) * s))
           = (a - u * s) * (a - u * s) + (b - v * s) * (b - v * s)"
    by (simp add: a_def b_def u_def v_def algebra_simps)
  have "(t - t0)\<^sup>2 \<le> (s - t0)\<^sup>2" unfolding t_def using s by (rule clamp_nearest)
  then have "D * (t - t0)\<^sup>2 \<le> D * (s - t0)\<^sup>2" using Dpos by (rule mult_left_mono)
  then show ?thesis
    unfolding L R sq_dist_param[OF t0D, of s] sq_dist_param[OF t0D, of t] D_def by simp
qed

text \<open>
  Claim C3. For a segment with distinct end points, \<^verbatim>\<open>closestPointOnSegment\<close> returns the
  point at the parameter \<open>t\<close> that is the projection of the query point clamped to
  \<open>[0, 1]\<close>, and no point of the segment is nearer to the query point (Euclidean
  distance). For coincident end points it returns the first end point with \<open>t = 0\<close>.
\<close>

theorem closestPointOnSegment_nearest:
  "((x1, y1) \<noteq> (x2, y2) \<longrightarrow>
      (let t = max 0 (min 1 (((px - x1) * (x2 - x1) + (py - y1) * (y2 - y1))
                 / ((x2 - x1) * (x2 - x1) + (y2 - y1) * (y2 - y1))));
           c = closestPointOnSegment px py x1 y1 x2 y2
       in cp_t c = Some t \<and> 0 \<le> t \<and> t \<le> 1 \<and>
          cp_x c = x1 + (x2 - x1) * t \<and> cp_y c = y1 + (y2 - y1) * t \<and>
          (\<forall>s. 0 \<le> s \<and> s \<le> 1 \<longrightarrow>
             hypot (px - cp_x c) (py - cp_y c)
             \<le> hypot (px - (x1 + (x2 - x1) * s)) (py - (y1 + (y2 - y1) * s)))))
   \<and> ((x1, y1) = (x2, y2) \<longrightarrow>
        closestPointOnSegment px py x1 y1 x2 y2 = \<lparr>cp_x = x1, cp_y = y1, cp_t = Some 0\<rparr>)"
proof (intro conjI impI)
  assume "(x1, y1) \<noteq> (x2, y2)"
  then have "x2 - x1 \<noteq> 0 \<or> y2 - y1 \<noteq> 0" by auto
  then have ne: "(x2 - x1) * (x2 - x1) + (y2 - y1) * (y2 - y1) \<noteq> 0"
    by (simp add: sum_squares_eq_zero_iff)
  define t where "t = max 0 (min 1 (((px - x1) * (x2 - x1) + (py - y1) * (y2 - y1))
                 / ((x2 - x1) * (x2 - x1) + (y2 - y1) * (y2 - y1))))"
  define c where "c = closestPointOnSegment px py x1 y1 x2 y2"
  have fields: "cp_t c = Some t" "cp_x c = x1 + (x2 - x1) * t" "cp_y c = y1 + (y2 - y1) * t"
    using ne by (simp_all add: c_def t_def closestPointOnSegment_def Let_def)
  have range: "0 \<le> t" "t \<le> 1" by (simp_all add: t_def)
  have nearest: "hypot (px - cp_x c) (py - cp_y c)
             \<le> hypot (px - (x1 + (x2 - x1) * s)) (py - (y1 + (y2 - y1) * s))"
    if "0 \<le> s \<and> s \<le> 1" for s
    unfolding hypot_def c_def using closest_sq_minimal[OF ne, of s px py] that
    by (simp only: real_sqrt_le_iff)
  show "let t = max 0 (min 1 (((px - x1) * (x2 - x1) + (py - y1) * (y2 - y1))
                 / ((x2 - x1) * (x2 - x1) + (y2 - y1) * (y2 - y1))));
           c = closestPointOnSegment px py x1 y1 x2 y2
       in cp_t c = Some t \<and> 0 \<le> t \<and> t \<le> 1 \<and>
          cp_x c = x1 + (x2 - x1) * t \<and> cp_y c = y1 + (y2 - y1) * t \<and>
          (\<forall>s. 0 \<le> s \<and> s \<le> 1 \<longrightarrow>
             hypot (px - cp_x c) (py - cp_y c)
             \<le> hypot (px - (x1 + (x2 - x1) * s)) (py - (y1 + (y2 - y1) * s)))"
    unfolding Let_def t_def[symmetric] c_def[symmetric]
    using fields range nearest by blast
next
  assume "(x1, y1) = (x2, y2)"
  then show "closestPointOnSegment px py x1 y1 x2 y2 = \<lparr>cp_x = x1, cp_y = y1, cp_t = Some 0\<rparr>"
    by (simp add: closestPointOnSegment_def)
qed

theorem closestPointOnSegment_nearest_witness:
  "((0::real), (0::real)) \<noteq> (10, 0)
   \<and> closestPointOnSegment 3 4 0 0 10 0 = \<lparr>cp_x = 3, cp_y = 0, cp_t = Some (3 / 10)\<rparr>
   \<and> hypot (3 - 3) (4 - 0) \<le> hypot (3 - 10 * (1 / 2)) 4
   \<and> closestPointOnSegment 3 4 1 2 1 2 = \<lparr>cp_x = 1, cp_y = 2, cp_t = Some 0\<rparr>"
proof -
  have c: "closestPointOnSegment 3 4 0 0 10 0 = \<lparr>cp_x = 3, cp_y = 0, cp_t = Some (3 / 10)\<rparr>"
    by (simp add: closestPointOnSegment_def)
  have ne: "((0::real), (0::real)) \<noteq> (10, 0)" by simp
  from closestPointOnSegment_nearest[of 0 0 10 0 3 4] ne
  have "\<forall>s::real. 0 \<le> s \<and> s \<le> 1 \<longrightarrow> hypot 0 4 \<le> hypot (3 - 10 * s) 4"
    by (simp add: Let_def c)
  then have "(0::real) \<le> 1 / 2 \<and> (1 / 2 :: real) \<le> 1 \<longrightarrow> hypot 0 4 \<le> hypot (3 - 10 * (1 / 2)) 4"
    by (rule spec)
  then have n: "hypot (3 - 3) (4 - 0) \<le> hypot (3 - 10 * (1 / 2)) 4"
    by simp
  from closestPointOnSegment_nearest[of 1 2 1 2 3 4]
  have z: "closestPointOnSegment 3 4 1 2 1 2 = \<lparr>cp_x = 1, cp_y = 2, cp_t = Some 0\<rparr>"
    by simp
  from ne c n z show ?thesis by blast
qed

subsection \<open>The detector\<close>

lemma sq_le_iff_sqrt_le_abs:
  fixes a b :: real
  shows "a \<le> b * b \<longleftrightarrow> sqrt a \<le> \<bar>b\<bar>"
proof -
  have "sqrt (b * b) = \<bar>b\<bar>" by simp
  then have "sqrt a \<le> \<bar>b\<bar> \<longleftrightarrow> sqrt a \<le> sqrt (b * b)" by simp
  also have "\<dots> \<longleftrightarrow> a \<le> b * b" by (rule real_sqrt_le_iff)
  finally show ?thesis by simp
qed

lemma unit_normal:
  fixes a b :: real
  assumes "sqrt (a * a + b * b) \<noteq> 0"
  shows "(a / sqrt (a * a + b * b))\<^sup>2 + (b / sqrt (a * a + b * b))\<^sup>2 = 1"
proof -
  have nn: "0 \<le> a * a + b * b" by simp
  have pos: "a * a + b * b \<noteq> 0" using assms by auto
  have "(sqrt (a * a + b * b))\<^sup>2 = a * a + b * b" using nn by simp
  then have "(a / sqrt (a * a + b * b))\<^sup>2 + (b / sqrt (a * a + b * b))\<^sup>2
             = (a\<^sup>2 + b\<^sup>2) / (a * a + b * b)"
    by (simp add: power_divide add_divide_distrib)
  also have "\<dots> = 1" using pos by (simp add: power2_eq_square)
  finally show ?thesis .
qed

lemma collide_Segment:
  "collide cx cy cr (Segment x1 y1 x2 y2 th cX cY w) =
     (let cp = closestPointOnSegment cx cy x1 y1 x2 y2;
          d = hypot (cx - cp_x cp) (cy - cp_y cp);
          rEff = cr + (case th of None \<Rightarrow> 0 | Some t \<Rightarrow> t) / 2
      in if d \<le> \<bar>rEff\<bar> then
           [\<lparr>hit_source = Segment x1 y1 x2 y2 th cX cY w, hit_kind = ''segment'', hit_cp = cp,
             hit_dist = d,
             hit_nx = (if d = 0 then 0 else (cx - cp_x cp) / d),
             hit_ny = (if d = 0 then 0 else (cy - cp_y cp) / d),
             hit_penetration = rEff - d\<rparr>]
         else [])"
  by (simp add: collide_def Let_def hypot_def sq_le_iff_sqrt_le_abs)

lemma collide_Rect:
  "collide cx cy cr (Rect x y w h centerX centerY angularVelocity) =
     (let closestX = max x (min cx (x + w));
          closestY = max y (min cy (y + h));
          d = hypot (cx - closestX) (cy - closestY)
      in if d \<le> \<bar>cr\<bar> then
           [\<lparr>hit_source = Rect x y w h centerX centerY angularVelocity, hit_kind = ''rect'',
             hit_cp = \<lparr>cp_x = closestX, cp_y = closestY, cp_t = None\<rparr>,
             hit_dist = d,
             hit_nx = (if d = 0 then 0 else (cx - closestX) / d),
             hit_ny = (if d = 0 then 0 else (cy - closestY) / d),
             hit_penetration = cr - d\<rparr>]
         else [])"
  by (simp add: collide_def Let_def hypot_def sq_le_iff_sqrt_le_abs)

lemma collide_source: "h \<in> set (collide cx cy cr ob) \<Longrightarrow> hit_source h = ob"
  by (cases ob) (auto simp: collide_def Let_def split: if_splits)

lemma set_checkCircleCollisions:
  "set (checkCircleCollisions cx cy cr obstacles) = (\<Union>ob \<in> set obstacles. set (collide cx cy cr ob))"
  by (induction obstacles) auto

lemma hits_of_obstacle:
  assumes "ob \<in> set obstacles"
  shows "{h \<in> set (checkCircleCollisions cx cy cr obstacles). hit_source h = ob}
         = set (collide cx cy cr ob)"
  using assms by (auto simp: set_checkCircleCollisions dest: collide_source)

lemma hit_normal_unit_or_zero:
  assumes "h \<in> set (checkCircleCollisions cx cy cr obstacles)"
  shows "(hit_nx h)\<^sup>2 + (hit_ny h)\<^sup>2 = 1 \<or> (hit_nx h = 0 \<and> hit_ny h = 0)"
proof -
  from assms obtain ob where "h \<in> set (collide cx cy cr ob)"
    by (auto simp: set_checkCircleCollisions)
  then show ?thesis
    by (cases ob) (auto simp: collide_def Let_def unit_normal split: if_splits)
qed

lemma hit_contract_collide:
  assumes ob: "ob \<in> set obstacles"
    and c: "collide cx cy cr ob =
      (if hypot (cx - qx) (cy - qy) \<le> \<bar>rEff\<bar> then
         [\<lparr>hit_source = ob, hit_kind = k,
           hit_cp = \<lparr>cp_x = qx, cp_y = qy, cp_t = t\<rparr>,
           hit_dist = hypot (cx - qx) (cy - qy),
           hit_nx = (if hypot (cx - qx) (cy - qy) = 0 then 0 else (cx - qx) / hypot (cx - qx) (cy - qy)),
           hit_ny = (if hypot (cx - qx) (cy - qy) = 0 then 0 else (cy - qy) / hypot (cx - qx) (cy - qy)),
           hit_penetration = rEff - hypot (cx - qx) (cy - qy)\<rparr>]
       else [])"
  shows "hit_contract (checkCircleCollisions cx cy cr obstacles) ob cx cy qx qy rEff"
proof -
  define d where "d = hypot (cx - qx) (cy - qy)"
  define hits where "hits = checkCircleCollisions cx cy cr obstacles"
  have mem: "h \<in> set hits \<and> hit_source h = ob \<longleftrightarrow> h \<in> set (collide cx cy cr ob)" for h
    using hits_of_obstacle[OF ob, of cx cy cr] unfolding hits_def by blast
  have unit: "d \<noteq> 0 \<Longrightarrow> ((cx - qx) / d)\<^sup>2 + ((cy - qy) / d)\<^sup>2 = 1"
    unfolding d_def hypot_def by (rule unit_normal)
  have ex: "(\<exists>h \<in> set hits. hit_source h = ob) \<longleftrightarrow> d \<le> \<bar>rEff\<bar>"
  proof -
    have "(\<exists>h \<in> set hits. hit_source h = ob) \<longleftrightarrow> collide cx cy cr ob \<noteq> []"
      using mem by (metis all_not_in_conv set_empty)
    also have "\<dots> \<longleftrightarrow> d \<le> \<bar>rEff\<bar>" by (simp add: c d_def)
    finally show ?thesis .
  qed
  have flds: "cp_x (hit_cp h) = qx \<and> cp_y (hit_cp h) = qy \<and>
            hit_penetration h = rEff - d \<and>
            (0 \<le> rEff \<longrightarrow> 0 \<le> hit_penetration h) \<and>
            (d \<noteq> 0 \<longrightarrow> hit_nx h = (cx - qx) / d \<and> hit_ny h = (cy - qy) / d \<and>
                       (hit_nx h)\<^sup>2 + (hit_ny h)\<^sup>2 = 1) \<and>
            (d = 0 \<longrightarrow> hit_nx h = 0 \<and> hit_ny h = 0)"
    if "h \<in> set hits" "hit_source h = ob" for h
  proof -
    from that mem have "h \<in> set (collide cx cy cr ob)" by blast
    then have le: "d \<le> \<bar>rEff\<bar>" and h: "h = \<lparr>hit_source = ob, hit_kind = k,
           hit_cp = \<lparr>cp_x = qx, cp_y = qy, cp_t = t\<rparr>,
           hit_dist = d,
           hit_nx = (if d = 0 then 0 else (cx - qx) / d),
           hit_ny = (if d = 0 then 0 else (cy - qy) / d),
           hit_penetration = rEff - d\<rparr>"
      unfolding c d_def[symmetric] by (auto split: if_splits)
    show ?thesis using le unit by (auto simp: h)
  qed
  have ex2: "0 \<le> rEff \<longrightarrow> ((\<exists>h \<in> set hits. hit_source h = ob) \<longleftrightarrow> d \<le> rEff)"
    using ex by simp
  show ?thesis
    unfolding hit_contract_def Let_def d_def[symmetric] hits_def[symmetric]
    using ex ex2 flds by blast
qed

lemma sqrt_289: "sqrt 289 = 17"
  by (rule real_sqrt_unique) simp_all

lemma sqrt_196: "sqrt 196 = 14"
  by (rule real_sqrt_unique) simp_all

lemma collide_platform: "collide 50 83 15 platform = [platform_hit]"
  by (simp add: collide_def closestPointOnSegment_def Let_def sqrt_289)

lemma collide_ledge: "collide 50 83 15 ledge = [ledge_hit]"
  by (simp add: collide_def Let_def sqrt_196)

text \<open>
  Claim C2, amended. For every obstacle of the list handed to the detector: a segment
  yields a hit exactly when the distance \<open>d\<close> from the body centre to the closest point of
  the segment is at most the magnitude of the effective radius (body radius plus half the
  thickness), which for a non-negative effective radius is \<open>d \<le> rEff\<close>; the hit records
  the closest point, the penetration \<open>rEff - d\<close> (non-negative when \<open>rEff\<close> is), and as
  normal the unit vector from the closest point to the centre, or the zero vector when
  \<open>d = 0\<close>. A rectangle obeys the same contract with the centre clamped into the box as
  closest point and the body radius as effective radius. Any other obstacle yields no hit.
\<close>

theorem detector_contract:
  assumes "ob \<in> set obstacles"
  shows "case ob of
      Segment x1 y1 x2 y2 thickness centerX centerY angularVelocity \<Rightarrow>
        hit_contract (checkCircleCollisions cx cy cr obstacles) ob cx cy
          (cp_x (closestPointOnSegment cx cy x1 y1 x2 y2))
          (cp_y (closestPointOnSegment cx cy x1 y1 x2 y2))
          (cr + (case thickness of None \<Rightarrow> 0 | Some th \<Rightarrow> th) / 2)
    | Rect x y w h centerX centerY angularVelocity \<Rightarrow>
        hit_contract (checkCircleCollisions cx cy cr obstacles) ob cx cy
          (max x (min cx (x + w))) (max y (min cy (y + h))) cr
    | Other \<Rightarrow> \<not> (\<exists>h \<in> set (checkCircleCollisions cx cy cr obstacles). hit_source h = ob)"
proof (cases ob)
  case (Segment x1 y1 x2 y2 thickness centerX centerY angularVelocity)
  obtain qx qy t where cp: "closestPointOnSegment cx cy x1 y1 x2 y2 = \<lparr>cp_x = qx, cp_y = qy, cp_t = t\<rparr>"
    by (cases "closestPointOnSegment cx cy x1 y1 x2 y2") auto
  have "hit_contract (checkCircleCollisions cx cy cr obstacles) ob cx cy qx qy
          (cr + (case thickness of None \<Rightarrow> 0 | Some th \<Rightarrow> th) / 2)"
    by (rule hit_contract_collide[OF assms, where k = "''segment''" and t = t])
       (simp add: Segment collide_Segment cp Let_def)
  then show ?thesis by (simp add: Segment cp)
next
  case (Rect x y w h centerX centerY angularVelocity)
  have "hit_contract (checkCircleCollisions cx cy cr obstacles) ob cx cy
          (max x (min cx (x + w))) (max y (min cy (y + h))) cr"
    by (rule hit_contract_collide[OF assms, where k = "''rect''" and t = None])
       (simp add: Rect collide_Rect Let_def)
  then show ?thesis by (simp add: Rect)
next
  case Other
  have "collide cx cy cr ob = []" by (simp add: Other collide_def)
  with hits_of_obstacle[OF assms, of cx cy cr] show ?thesis
    by (auto simp: Other)
qed

theorem detector_contract_witness:
  "platform \<in> set [ledge, platform]
   \<and> ledge \<in> set [ledge, platform]
   \<and> checkCircleCollisions 50 83 15 [ledge, platform] = [ledge_hit, platform_hit]
   \<and> hit_contract [ledge_hit, platform_hit] platform 50 83 50 100 20
   \<and> hit_contract [ledge_hit, platform_hit] ledge 50 83 50 97 15"
proof -
  have p: "platform \<in> set [ledge, platform]" and l: "ledge \<in> set [ledge, platform]" by simp_all
  have hits: "checkCircleCollisions 50 83 15 [ledge, platform] = [ledge_hit, platform_hit]"
    by (simp add: collide_platform collide_ledge)
  from detector_contract[OF p, of 50 83 15]
  have a: "hit_contract [ledge_hit, platform_hit] platform 50 83 50 100 20"
    unfolding hits by (simp add: closestPointOnSegment_def)
  from detector_contract[OF l, of 50 83 15]
  have b: "hit_contract [ledge_hit, platform_hit] ledge 50 83 50 97 15"
    unfolding hits by simp
  from p l hits a b show ?thesis by blast
qed

text \<open>
  With a negative effective radius the comparison of squares lets a hit through although
  the distance exceeds the effective radius: radius \<open>-5\<close>, distance 3, penetration \<open>-8\<close>.
\<close>

theorem detector_contract_counterexample:
  "checkCircleCollisions 0 3 (- 5) [Segment (- 10) 0 10 0 None 0 0 None]
   = [\<lparr>hit_source = Segment (- 10) 0 10 0 None 0 0 None, hit_kind = ''segment'',
       hit_cp = \<lparr>cp_x = 0, cp_y = 0, cp_t = Some (1 / 2)\<rparr>, hit_dist = 3,
       hit_nx = 0, hit_ny = 1, hit_penetration = - 8\<rparr>]
   \<and> closestPointOnSegment 0 3 (- 10) 0 10 0 = \<lparr>cp_x = 0, cp_y = 0, cp_t = Some (1 / 2)\<rparr>
   \<and> hypot (0 - 0) (3 - 0) = 3
   \<and> \<not> (3::real) \<le> - 5 + 0 / 2"
proof -
  have s9: "sqrt 9 = 3" by (rule real_sqrt_unique) simp_all
  show ?thesis
    by (simp add: collide_def closestPointOnSegment_def Let_def hypot_def s9)
qed

subsection \<open>The two branches of \<^verbatim>\<open>step\<close>\<close>

lemma step_airborne:
  assumes "tentativeHits state obstacles opts = []"
  shows "step state obstacles opts =
     (let (dx, dy, speed, vx, vy) = commit (vx0 state) (vy0 state + gravity opts) (stopThreshold opts)
      in \<lparr>res_x = st_x state + vx0 state, res_y = st_y state + (vy0 state + gravity opts),
          res_dx = dx, res_dy = dy, res_speed = speed, res_vx = vx, res_vy = vy,
          contact = False\<rparr>)"
  using assms
  by (simp add: step_def tentativeHits_def Let_def split: prod.splits)

lemma step_contact:
  assumes "tentativeHits state obstacles opts \<noteq> []"
  shows "step state obstacles opts =
     (let h = dominant (tentativeHits state obstacles opts);
          nx = hit_nx h; ny = hit_ny h;
          pen = max 0 (hit_penetration h);
          (tx, ty) = tangent nx ny;
          (obsVx, obsVy) = obstacleVelocity h;
          vn = new_vn_scalar (vx0 state) (vy0 state) (gravity opts) (restitution opts)
                 nx ny obsVx obsVy;
          v = vAlong (vx0 state) (vy0 state) (gravity opts) (tangentialFriction opts)
                (tangentialRetention opts) tx ty obsVx obsVy;
          (outVx, outVy) = outgoing tx ty v nx ny vn;
          (dx, dy, speed, vx, vy) = commit outVx outVy (stopThreshold opts)
      in \<lparr>res_x = st_x state + vx0 state + nx * pen,
          res_y = st_y state + (vy0 state + gravity opts) + ny * pen,
          res_dx = dx, res_dy = dy, res_speed = speed, res_vx = vx, res_vy = vy,
          contact = True\<rparr>)"
  using assms
  by (simp add: step_def tentativeHits_def hits_type_def Let_def split: prod.splits)

lemma dominant_greatest:
  assumes "hits \<noteq> []"
  shows "dominant hits \<in> set hits"
    and "\<forall>h \<in> set hits. hit_penetration h \<le> hit_penetration (dominant hits)"
proof -
  define ys where "ys = sort_key (\<lambda>a. - hit_penetration a) hits"
  have set_ys: "set ys = set hits" by (simp add: ys_def)
  have srt: "sorted (map (\<lambda>a. - hit_penetration a) ys)" by (simp add: ys_def)
  from assms set_ys have "ys \<noteq> []" by auto
  then obtain y ys' where ys: "ys = y # ys'" by (cases ys) auto
  have d: "dominant hits = y" by (simp add: dominant_def ys_def[symmetric] ys)
  from set_ys ys show "dominant hits \<in> set hits" by (auto simp: d)
  from srt ys have "\<forall>z \<in> set ys'. - hit_penetration y \<le> - hit_penetration z" by auto
  then have "\<forall>z \<in> set ys. hit_penetration z \<le> hit_penetration y" by (auto simp: ys)
  then show "\<forall>h \<in> set hits. hit_penetration h \<le> hit_penetration (dominant hits)"
    by (simp add: d set_ys)
qed

lemma falling_hits: "tentativeHits falling_body [ledge, platform] unit_gravity = [ledge_hit, platform_hit]"
  by (simp add: tentativeHits_def vx0_def vy0_def gravity_def collide_platform collide_ledge)

lemma falling_dominant: "dominant [ledge_hit, platform_hit] = platform_hit"
  by (simp add: dominant_def)

lemma sqrt_9_25: "sqrt (9 / 25) = 3 / 5"
  by (rule real_sqrt_unique) (simp_all add: power2_eq_square)

lemma falling_step:
  "step falling_body [ledge, platform] unit_gravity =
     \<lparr>res_x = 50, res_y = 80, res_dx = Some 0, res_dy = Some (- 1), res_speed = 3 / 5,
      res_vx = 0, res_vy = - 3 / 5, contact = True\<rparr>"
proof -
  have ne: "tentativeHits falling_body [ledge, platform] unit_gravity \<noteq> []"
    by (simp add: falling_hits)
  have t: "tangent 0 (- 1) = (1, 0)" by (simp add: tangent_def hypot_def)
  have ov: "obstacleVelocity platform_hit = (0, 0)" by (simp add: obstacleVelocity_def)
  have vn: "new_vn_scalar 0 2 1 (3 / 10) 0 (- 1) 0 0 = 3 / 5"
    by (simp add: new_vn_scalar_def)
  have v: "vAlong 0 2 1 (199 / 200) (3 / 5) 1 0 0 0 = 0" by (simp add: vAlong_def)
  have out: "outgoing 1 0 0 0 (- 1) (3 / 5) = (0, - (3 / 5))" by (simp add: outgoing_def)
  have c: "commit 0 (- (3 / 5)) (1 / 50) = (Some 0, Some (- 1), 3 / 5, 0, - (3 / 5))"
    by (simp add: commit_def Let_def hypot_def js_div_def sqrt_9_25)
  have p: "gravity unit_gravity = 1" "restitution unit_gravity = 3 / 10"
    "tangentialFriction unit_gravity = 199 / 200" "tangentialRetention unit_gravity = 3 / 5"
    "stopThreshold unit_gravity = 1 / 50"
    by (simp_all add: gravity_def restitution_def tangentialFriction_def friction_def
        tangentialRetention_def stopThreshold_def)
  have s: "vx0 falling_body = 0" "vy0 falling_body = 2" by (simp_all add: vx0_def vy0_def)
  show ?thesis
    unfolding step_contact[OF ne] falling_hits falling_dominant p s
    by (simp add: t ov vn v out c)
qed

lemma unit_gravity_values:
  "gravity unit_gravity = 1" "restitution unit_gravity = 3 / 10"
  "tangentialFriction unit_gravity = 199 / 200" "tangentialRetention unit_gravity = 3 / 5"
  "stopThreshold unit_gravity = 1 / 50"
  by (simp_all add: gravity_def restitution_def tangentialFriction_def friction_def
      tangentialRetention_def stopThreshold_def)

lemma smooth_opts_values:
  "gravity smooth_opts = 1" "restitution smooth_opts = 3 / 10"
  "tangentialFriction smooth_opts = 1" "tangentialRetention smooth_opts = 3 / 5"
  "stopThreshold smooth_opts = 1 / 50"
  by (simp_all add: gravity_def restitution_def tangentialFriction_def
      tangentialRetention_def stopThreshold_def)

lemma tangent_up: "tangent 0 (- 1) = (1, 0)"
  by (simp add: tangent_def hypot_def)

text \<open>
  Claim C4. \<^verbatim>\<open>step\<close> reports \<^verbatim>\<open>contact\<close> exactly when the detector reports a hit at the
  gravity-advanced tentative position. When there are hits, the one resolved is among them
  and no hit penetrates deeper: the state returned is the resolution of that hit, its
  position pushed out along that hit's normal by its penetration and its velocity built
  from that hit's normal, tangent and source. No other hit is used: any other list of
  obstacles with the same dominant hit gives the same result.
\<close>

theorem step_contact_dominant:
  "contact (step state obstacles opts) = (tentativeHits state obstacles opts \<noteq> []) \<and>
   (tentativeHits state obstacles opts \<noteq> [] \<longrightarrow>
      dominant (tentativeHits state obstacles opts) \<in> set (tentativeHits state obstacles opts) \<and>
      (\<forall>h \<in> set (tentativeHits state obstacles opts).
         hit_penetration h \<le> hit_penetration (dominant (tentativeHits state obstacles opts))) \<and>
      step state obstacles opts =
        (let h = dominant (tentativeHits state obstacles opts);
             nx = hit_nx h; ny = hit_ny h;
             pen = max 0 (hit_penetration h);
             (tx, ty) = tangent nx ny;
             (obsVx, obsVy) = obstacleVelocity h;
             vn = new_vn_scalar (vx0 state) (vy0 state) (gravity opts) (restitution opts)
                    nx ny obsVx obsVy;
             v = vAlong (vx0 state) (vy0 state) (gravity opts) (tangentialFriction opts)
                   (tangentialRetention opts) tx ty obsVx obsVy;
             (outVx, outVy) = outgoing tx ty v nx ny vn;
             (dx, dy, speed, vx, vy) = commit outVx outVy (stopThreshold opts)
         in \<lparr>res_x = st_x state + vx0 state + nx * pen,
             res_y = st_y state + (vy0 state + gravity opts) + ny * pen,
             res_dx = dx, res_dy = dy, res_speed = speed, res_vx = vx, res_vy = vy,
             contact = True\<rparr>) \<and>
      (\<forall>others. tentativeHits state others opts \<noteq> [] \<and>
         dominant (tentativeHits state others opts) = dominant (tentativeHits state obstacles opts)
         \<longrightarrow> step state others opts = step state obstacles opts))"
proof (cases "tentativeHits state obstacles opts = []")
  case True
  then show ?thesis by (simp add: step_airborne Let_def split: prod.splits)
next
  case False
  have c: "contact (step state obstacles opts)"
    by (simp add: step_contact[OF False] Let_def split: prod.splits)
  have same: "step state others opts = step state obstacles opts"
    if "tentativeHits state others opts \<noteq> []"
      "dominant (tentativeHits state others opts) = dominant (tentativeHits state obstacles opts)"
    for others
    by (simp add: step_contact[OF False] step_contact[OF that(1)] that(2))
  from False c same dominant_greatest[OF False] step_contact[OF False] show ?thesis by blast
qed

theorem step_contact_dominant_witness:
  "tentativeHits falling_body [ledge, platform] unit_gravity = [ledge_hit, platform_hit]
   \<and> contact (step falling_body [ledge, platform] unit_gravity)
   \<and> dominant [ledge_hit, platform_hit] = platform_hit
   \<and> hit_penetration ledge_hit \<le> hit_penetration platform_hit
   \<and> step falling_body [ledge, platform] unit_gravity =
       \<lparr>res_x = 50 + 0 + 0 * max 0 3, res_y = 80 + (2 + 1) + (- 1) * max 0 3,
        res_dx = Some 0, res_dy = Some (- 1), res_speed = 3 / 5,
        res_vx = 0, res_vy = - (3 / 5), contact = True\<rparr>
   \<and> step falling_body [platform] unit_gravity = step falling_body [ledge, platform] unit_gravity"
proof -
  have single: "tentativeHits falling_body [platform] unit_gravity = [platform_hit]"
    by (simp add: tentativeHits_def vx0_def vy0_def gravity_def collide_platform)
  have dom1: "dominant [platform_hit] = platform_hit" by (simp add: dominant_def)
  have t: "tangent 0 (- 1) = (1, 0)" by (rule tangent_up)
  have ov: "obstacleVelocity platform_hit = (0, 0)" by (simp add: obstacleVelocity_def)
  have vn: "new_vn_scalar 0 2 1 (3 / 10) 0 (- 1) 0 0 = 3 / 5"
    by (simp add: new_vn_scalar_def)
  have v: "vAlong 0 2 1 (199 / 200) (3 / 5) 1 0 0 0 = 0" by (simp add: vAlong_def)
  have out: "outgoing 1 0 0 0 (- 1) (3 / 5) = (0, - (3 / 5))" by (simp add: outgoing_def)
  have cm: "commit 0 (- (3 / 5)) (1 / 50) = (Some 0, Some (- 1), 3 / 5, 0, - (3 / 5))"
    by (simp add: commit_def Let_def hypot_def js_div_def sqrt_9_25)
  have s: "vx0 falling_body = 0" "vy0 falling_body = 2" by (simp_all add: vx0_def vy0_def)
  have ne: "tentativeHits falling_body [ledge, platform] unit_gravity \<noteq> []"
    by (simp add: falling_hits)
  have d: "dominant (tentativeHits falling_body [ledge, platform] unit_gravity) = platform_hit"
    by (simp add: falling_hits falling_dominant)
  note inst = step_contact_dominant[of falling_body "[ledge, platform]" unit_gravity]
  from inst ne have c: "contact (step falling_body [ledge, platform] unit_gravity)" by blast
  from inst ne have "\<forall>h \<in> set (tentativeHits falling_body [ledge, platform] unit_gravity).
      hit_penetration h
      \<le> hit_penetration (dominant (tentativeHits falling_body [ledge, platform] unit_gravity))"
    by blast
  then have le: "hit_penetration ledge_hit \<le> hit_penetration platform_hit"
    unfolding d by (simp add: falling_hits)
  from inst ne have "step falling_body [ledge, platform] unit_gravity =
        (let h = dominant (tentativeHits falling_body [ledge, platform] unit_gravity);
             nx = hit_nx h; ny = hit_ny h;
             pen = max 0 (hit_penetration h);
             (tx, ty) = tangent nx ny;
             (obsVx, obsVy) = obstacleVelocity h;
             vn = new_vn_scalar (vx0 falling_body) (vy0 falling_body) (gravity unit_gravity)
                    (restitution unit_gravity) nx ny obsVx obsVy;
             v = vAlong (vx0 falling_body) (vy0 falling_body) (gravity unit_gravity)
                   (tangentialFriction unit_gravity) (tangentialRetention unit_gravity)
                   tx ty obsVx obsVy;
             (outVx, outVy) = outgoing tx ty v nx ny vn;
             (dx, dy, speed, vx, vy) = commit outVx outVy (stopThreshold unit_gravity)
         in \<lparr>res_x = st_x falling_body + vx0 falling_body + nx * pen,
             res_y = st_y falling_body + (vy0 falling_body + gravity unit_gravity) + ny * pen,
             res_dx = dx, res_dy = dy, res_speed = speed, res_vx = vx, res_vy = vy,
             contact = True\<rparr>)"
    by blast
  then have r: "step falling_body [ledge, platform] unit_gravity =
       \<lparr>res_x = 50 + 0 + 0 * max 0 3, res_y = 80 + (2 + 1) + (- 1) * max 0 3,
        res_dx = Some 0, res_dy = Some (- 1), res_speed = 3 / 5,
        res_vx = 0, res_vy = - (3 / 5), contact = True\<rparr>"
    unfolding d unit_gravity_values s by (simp add: t ov vn v out cm)
  from inst ne have "tentativeHits falling_body [platform] unit_gravity \<noteq> [] \<and>
         dominant (tentativeHits falling_body [platform] unit_gravity)
           = dominant (tentativeHits falling_body [ledge, platform] unit_gravity)
         \<longrightarrow> step falling_body [platform] unit_gravity = step falling_body [ledge, platform] unit_gravity"
    by blast
  then have e: "step falling_body [platform] unit_gravity = step falling_body [ledge, platform] unit_gravity"
    by (simp add: single dom1 d)
  from falling_hits c falling_dominant le r e show ?thesis by blast
qed

subsection \<open>The position after a contact\<close>

lemma collide_penetration_nonneg:
  assumes h: "h \<in> set (collide cx cy cr ob)" and r: "0 \<le> cr"
    and th: "case ob of Segment x1 y1 x2 y2 (Some th) centerX centerY w \<Rightarrow> 0 \<le> th | _ \<Rightarrow> True"
  shows "0 \<le> hit_penetration h"
proof (cases ob)
  case (Segment x1 y1 x2 y2 thickness centerX centerY w)
  with th r have "0 \<le> cr + (case thickness of None \<Rightarrow> 0 | Some t \<Rightarrow> t) / 2"
    by (cases thickness) auto
  with h show ?thesis
    by (auto simp: Segment collide_Segment Let_def split: if_splits)
next
  case (Rect x y w h' centerX centerY angularVelocity)
  with h r show ?thesis by (auto simp: collide_Rect Let_def split: if_splits)
next
  case Other
  with h show ?thesis by (simp add: collide_def)
qed

text \<open>
  Claim C5, amended. When a contact is resolved, the returned position is the tentative
  position (old position plus \<open>(vx, vy + gravity)\<close>) moved along the normal of the
  dominant hit by its penetration, a negative penetration counting as 0; segments and
  rectangles are treated alike. So the displacement is normal times penetration whenever
  the penetration is not negative, as it is for a non-negative body radius and
  non-negative thicknesses.
\<close>

theorem step_contact_position:
  assumes "tentativeHits state obstacles opts \<noteq> []"
  shows "let h = dominant (tentativeHits state obstacles opts);
             s = step state obstacles opts
         in res_x s = st_x state + vx0 state + hit_nx h * max 0 (hit_penetration h) \<and>
            res_y s = st_y state + (vy0 state + gravity opts) + hit_ny h * max 0 (hit_penetration h) \<and>
            (0 \<le> hit_penetration h \<longrightarrow>
               res_x s = st_x state + vx0 state + hit_nx h * hit_penetration h \<and>
               res_y s = st_y state + (vy0 state + gravity opts) + hit_ny h * hit_penetration h) \<and>
            (0 \<le> st_r state \<and>
             (\<forall>ob \<in> set obstacles.
                case ob of Segment x1 y1 x2 y2 (Some th) centerX centerY w \<Rightarrow> 0 \<le> th | _ \<Rightarrow> True)
             \<longrightarrow> 0 \<le> hit_penetration h)"
proof -
  define h where "h = dominant (tentativeHits state obstacles opts)"
  have pos: "res_x (step state obstacles opts) = st_x state + vx0 state + hit_nx h * max 0 (hit_penetration h)"
    "res_y (step state obstacles opts) = st_y state + (vy0 state + gravity opts) + hit_ny h * max 0 (hit_penetration h)"
    by (simp_all add: step_contact[OF assms] Let_def h_def split: prod.splits)
  have nonneg: "0 \<le> hit_penetration h"
    if r: "0 \<le> st_r state"
      and th: "\<forall>ob \<in> set obstacles.
                case ob of Segment x1 y1 x2 y2 (Some th) centerX centerY w \<Rightarrow> 0 \<le> th | _ \<Rightarrow> True"
  proof -
    have "h \<in> set (tentativeHits state obstacles opts)"
      unfolding h_def using assms by (rule dominant_greatest(1))
    then obtain ob where ob: "ob \<in> set obstacles"
      and hc: "h \<in> set (collide (st_x state + vx0 state) (st_y state + (vy0 state + gravity opts)) (st_r state) ob)"
      by (auto simp: tentativeHits_def set_checkCircleCollisions)
    from th ob have "case ob of Segment x1 y1 x2 y2 (Some th) centerX centerY w \<Rightarrow> 0 \<le> th | _ \<Rightarrow> True"
      by blast
    with hc r show ?thesis by (rule collide_penetration_nonneg)
  qed
  show ?thesis
    unfolding Let_def h_def[symmetric] using pos nonneg by (simp add: max_def)
qed

theorem step_contact_position_witness:
  "tentativeHits falling_body [ledge, platform] unit_gravity \<noteq> []
   \<and> res_x (step falling_body [ledge, platform] unit_gravity) = 50
   \<and> res_y (step falling_body [ledge, platform] unit_gravity) = 80"
proof -
  have ne: "tentativeHits falling_body [ledge, platform] unit_gravity \<noteq> []"
    by (simp add: falling_hits)
  from step_contact_position[OF ne] ne show ?thesis
    by (simp add: Let_def falling_hits falling_dominant vx0_def vy0_def gravity_def)
qed

text \<open>
  A body of radius \<open>-5\<close> is in contact with penetration \<open>-8\<close> along the normal \<open>(0, 1)\<close>;
  \<^verbatim>\<open>Math.max(0, ...)\<close> keeps it at the tentative height 3 instead of moving it to \<open>-5\<close>.
\<close>

theorem step_contact_position_counterexample:
  "tentativeHits \<lparr>st_x = 0, st_y = 3, st_dx = 0, st_dy = 0, st_speed = 0, st_r = - 5,
       st_vx = Some 0, st_vy = Some 0\<rparr> [Segment (- 10) 0 10 0 None 0 0 None]
     \<lparr>opt_gravity = Some 0, opt_friction = None, opt_bounds = None, opt_stopThreshold = None,
       opt_restitution = None, opt_tangentialFriction = None, opt_tangentialRetention = None\<rparr>
   = [\<lparr>hit_source = Segment (- 10) 0 10 0 None 0 0 None, hit_kind = ''segment'',
       hit_cp = \<lparr>cp_x = 0, cp_y = 0, cp_t = Some (1 / 2)\<rparr>, hit_dist = 3,
       hit_nx = 0, hit_ny = 1, hit_penetration = - 8\<rparr>]
   \<and> contact (step \<lparr>st_x = 0, st_y = 3, st_dx = 0, st_dy = 0, st_speed = 0, st_r = - 5,
       st_vx = Some 0, st_vy = Some 0\<rparr> [Segment (- 10) 0 10 0 None 0 0 None]
     \<lparr>opt_gravity = Some 0, opt_friction = None, opt_bounds = None, opt_stopThreshold = None,
       opt_restitution = None, opt_tangentialFriction = None, opt_tangentialRetention = None\<rparr>)
   \<and> res_y (step \<lparr>st_x = 0, st_y = 3, st_dx = 0, st_dy = 0, st_speed = 0, st_r = - 5,
       st_vx = Some 0, st_vy = Some 0\<rparr> [Segment (- 10) 0 10 0 None 0 0 None]
     \<lparr>opt_gravity = Some 0, opt_friction = None, opt_bounds = None, opt_stopThreshold = None,
       opt_restitution = None, opt_tangentialFriction = None, opt_tangentialRetention = None\<rparr>) = 3
   \<and> (3::real) \<noteq> 3 + (0 + 0) + 1 * (- 8)"
proof -
  have s9: "sqrt 9 = 3" by (rule real_sqrt_unique) simp_all
  have hits: "tentativeHits \<lparr>st_x = 0, st_y = 3, st_dx = 0, st_dy = 0, st_speed = 0, st_r = - 5,
       st_vx = Some 0, st_vy = Some 0\<rparr> [Segment (- 10) 0 10 0 None 0 0 None]
     \<lparr>opt_gravity = Some 0, opt_friction = None, opt_bounds = None, opt_stopThreshold = None,
       opt_restitution = None, opt_tangentialFriction = None, opt_tangentialRetention = None\<rparr>
   = [\<lparr>hit_source = Segment (- 10) 0 10 0 None 0 0 None, hit_kind = ''segment'',
       hit_cp = \<lparr>cp_x = 0, cp_y = 0, cp_t = Some (1 / 2)\<rparr>, hit_dist = 3,
       hit_nx = 0, hit_ny = 1, hit_penetration = - 8\<rparr>]"
    by (simp add: tentativeHits_def vx0_def vy0_def gravity_def collide_def
        closestPointOnSegment_def Let_def s9)
  then have ne: "tentativeHits \<lparr>st_x = 0, st_y = 3, st_dx = 0, st_dy = 0, st_speed = 0, st_r = - 5,
       st_vx = Some 0, st_vy = Some 0\<rparr> [Segment (- 10) 0 10 0 None 0 0 None]
     \<lparr>opt_gravity = Some 0, opt_friction = None, opt_bounds = None, opt_stopThreshold = None,
       opt_restitution = None, opt_tangentialFriction = None, opt_tangentialRetention = None\<rparr> \<noteq> []"
    by simp
  show ?thesis
    unfolding step_contact[OF ne] hits
    by (simp add: Let_def dominant_def vx0_def vy0_def gravity_def split: prod.splits)
qed

subsection \<open>The velocity after a contact\<close>

text \<open>
  How the two scalars of the contact branch reach the result. A normal of a hit is a unit
  vector or zero. For a unit normal the tangent is \<open>(-ny, nx)\<close> and the negative normal
  component that \<^verbatim>\<open>step\<close> subtracts is the normal scalar itself; for a zero normal the
  tangent and both scalars are zero. Either way the velocity handed to the final block is
  tangent times \<^verbatim>\<open>vAlong\<close> plus normal times the non-negative part of
  \<^verbatim>\<open>new_vn_scalar\<close>.
\<close>

lemma tangent_unit:
  assumes "nx\<^sup>2 + ny\<^sup>2 = 1"
  shows "tangent nx ny = (- ny, nx)"
proof -
  have "ny * ny + nx * nx = 1" using assms by (simp add: power2_eq_square)
  then show ?thesis by (simp add: tangent_def hypot_def Let_def)
qed

lemma outgoing_unit:
  assumes n: "nx\<^sup>2 + ny\<^sup>2 = 1"
  shows "outgoing (- ny) nx v nx ny vn = (- ny * v + nx * max 0 vn, nx * v + ny * max 0 vn)"
proof -
  have "(- ny * v + nx * vn) * nx + (nx * v + ny * vn) * ny = vn * (nx\<^sup>2 + ny\<^sup>2)"
    by (simp add: power2_eq_square algebra_simps)
  then have d: "(- ny * v + nx * vn) * nx + (nx * v + ny * vn) * ny = vn" using n by simp
  show ?thesis
    unfolding outgoing_def Let_def d by (simp add: max_def)
qed

lemma tangent_zero: "tangent 0 0 = (0, 0)"
  by (simp add: tangent_def hypot_def)

lemma new_vn_scalar_zero_normal: "new_vn_scalar a b g e 0 0 ox oy = 0"
  by (simp add: new_vn_scalar_def)

lemma vAlong_zero_tangent: "vAlong a b g tf ret 0 0 ox oy = 0"
  by (simp add: vAlong_def)

lemma outgoing_zero_normal: "outgoing 0 0 v 0 0 vn = (0, 0)"
  by (simp add: outgoing_def)

lemma commit_velocity:
  assumes "commit a b thr = (dx, dy, sp, vx, vy)"
  shows "(hypot a b < thr \<longrightarrow> vx = 0 \<and> vy = 0) \<and> (\<not> hypot a b < thr \<longrightarrow> vx = a \<and> vy = b)"
  using assms by (auto simp: commit_def Let_def split: if_splits)

lemma step_contact_kinematics:
  assumes ne: "tentativeHits state obstacles opts \<noteq> []"
  shows "let h = dominant (tentativeHits state obstacles opts);
             nx = hit_nx h; ny = hit_ny h;
             (tx, ty) = tangent nx ny;
             (obsVx, obsVy) = obstacleVelocity h;
             vn = new_vn_scalar (vx0 state) (vy0 state) (gravity opts) (restitution opts)
                    nx ny obsVx obsVy;
             v = vAlong (vx0 state) (vy0 state) (gravity opts) (tangentialFriction opts)
                   (tangentialRetention opts) tx ty obsVx obsVy;
             outVx = tx * v + nx * max 0 vn;
             outVy = ty * v + ny * max 0 vn;
             s = step state obstacles opts
         in (res_dx s, res_dy s, res_speed s, res_vx s, res_vy s)
              = commit outVx outVy (stopThreshold opts)
            \<and> outVx * nx + outVy * ny = max 0 vn
            \<and> outVx * tx + outVy * ty = v"
proof -
  define h where "h = dominant (tentativeHits state obstacles opts)"
  obtain tx ty where t: "tangent (hit_nx h) (hit_ny h) = (tx, ty)" by fastforce
  obtain obsVx obsVy where ov: "obstacleVelocity h = (obsVx, obsVy)" by fastforce
  define vn where "vn = new_vn_scalar (vx0 state) (vy0 state) (gravity opts) (restitution opts)
                    (hit_nx h) (hit_ny h) obsVx obsVy"
  define v where "v = vAlong (vx0 state) (vy0 state) (gravity opts) (tangentialFriction opts)
                   (tangentialRetention opts) tx ty obsVx obsVy"
  define ox where "ox = tx * v + hit_nx h * max 0 vn"
  define oy where "oy = ty * v + hit_ny h * max 0 vn"
  have "h \<in> set (tentativeHits state obstacles opts)"
    unfolding h_def using ne by (rule dominant_greatest(1))
  then have n: "(hit_nx h)\<^sup>2 + (hit_ny h)\<^sup>2 = 1 \<or> (hit_nx h = 0 \<and> hit_ny h = 0)"
    unfolding tentativeHits_def by (rule hit_normal_unit_or_zero)
  have out: "outgoing tx ty v (hit_nx h) (hit_ny h) vn = (ox, oy)"
    and dn: "ox * hit_nx h + oy * hit_ny h = max 0 vn"
    and dt: "ox * tx + oy * ty = v"
  proof -
    from n have "outgoing tx ty v (hit_nx h) (hit_ny h) vn = (ox, oy)
        \<and> ox * hit_nx h + oy * hit_ny h = max 0 vn \<and> ox * tx + oy * ty = v"
    proof
      assume u: "(hit_nx h)\<^sup>2 + (hit_ny h)\<^sup>2 = 1"
      with t have tt: "tx = - hit_ny h" "ty = hit_nx h" by (simp_all add: tangent_unit)
      have a: "outgoing tx ty v (hit_nx h) (hit_ny h) vn = (ox, oy)"
        unfolding tt ox_def oy_def using u by (rule outgoing_unit)
      have "ox * hit_nx h + oy * hit_ny h = max 0 vn * ((hit_nx h)\<^sup>2 + (hit_ny h)\<^sup>2)"
        "ox * tx + oy * ty = v * ((hit_nx h)\<^sup>2 + (hit_ny h)\<^sup>2)"
        by (simp_all add: ox_def oy_def tt power2_eq_square algebra_simps)
      with a u show ?thesis by simp
    next
      assume z: "hit_nx h = 0 \<and> hit_ny h = 0"
      with t have tt: "tx = 0" "ty = 0" by (simp_all add: tangent_zero)
      have "vn = 0" by (simp add: vn_def z new_vn_scalar_zero_normal)
      moreover have "v = 0" by (simp add: v_def tt vAlong_zero_tangent)
      ultimately show ?thesis by (simp add: z tt ox_def oy_def outgoing_zero_normal)
    qed
    then show "outgoing tx ty v (hit_nx h) (hit_ny h) vn = (ox, oy)"
      and "ox * hit_nx h + oy * hit_ny h = max 0 vn" and "ox * tx + oy * ty = v" by blast+
  qed
  have c: "(res_dx (step state obstacles opts), res_dy (step state obstacles opts),
            res_speed (step state obstacles opts), res_vx (step state obstacles opts),
            res_vy (step state obstacles opts)) = commit ox oy (stopThreshold opts)"
    unfolding step_contact[OF ne] Let_def h_def[symmetric] t ov prod.case
      vn_def[symmetric] v_def[symmetric] out
    by (simp split: prod.splits)
  show ?thesis
    unfolding Let_def h_def[symmetric] t ov prod.case vn_def[symmetric] v_def[symmetric]
      ox_def[symmetric] oy_def[symmetric]
    using c dn dt by blast
qed

lemma obstacleVelocity_eq:
  "obstacleVelocity h =
     (case rotation (hit_source h) of
        Some (centerX, centerY, omega) \<Rightarrow>
          (- omega * (cp_y (hit_cp h) - centerY), omega * (cp_x (hit_cp h) - centerX))
      | None \<Rightarrow> (0, 0))"
  by (simp add: obstacleVelocity_def Let_def split: option.splits prod.splits)

lemma carried_hits: "tentativeHits carried_body [spinning_platform] smooth_opts = [carried_hit]"
  by (simp add: tentativeHits_def vx0_def vy0_def gravity_def collide_def
      closestPointOnSegment_def Let_def sqrt_289)

lemma carried_velocity: "obstacleVelocity carried_hit = (0, 1 / 5)"
  by (simp add: obstacleVelocity_def)

lemma carried_step:
  "step carried_body [spinning_platform] smooth_opts =
     \<lparr>res_x = 60, res_y = 80, res_dx = Some 1, res_dy = Some 0, res_speed = 1,
      res_vx = 1, res_vy = 0, contact = True\<rparr>"
proof -
  have ne: "tentativeHits carried_body [spinning_platform] smooth_opts \<noteq> []"
    by (simp add: carried_hits)
  have d: "dominant [carried_hit] = carried_hit" by (simp add: dominant_def)
  have vn: "new_vn_scalar 1 (1 / 5) 1 (3 / 10) 0 (- 1) 0 (1 / 5) = - (1 / 5)"
    by (simp add: new_vn_scalar_def)
  have v: "vAlong 1 (1 / 5) 1 1 (3 / 5) 1 0 0 (1 / 5) = 1" by (simp add: vAlong_def)
  have out: "outgoing 1 0 1 0 (- 1) (- (1 / 5)) = (1, 0)" by (simp add: outgoing_def)
  have c: "commit 1 0 (1 / 50) = (Some 1, Some 0, 1, 1, 0)"
    by (simp add: commit_def Let_def hypot_def js_div_def)
  have s: "vx0 carried_body = 1" "vy0 carried_body = 1 / 5" by (simp_all add: vx0_def vy0_def)
  show ?thesis
    unfolding step_contact[OF ne] carried_hits d smooth_opts_values s
    by (simp add: tangent_up carried_velocity vn v out c)
qed

lemma creeping_hits: "tentativeHits creeping_body [platform] smooth_opts = [platform_hit]"
  by (simp add: tentativeHits_def vx0_def vy0_def gravity_def collide_def
      closestPointOnSegment_def Let_def sqrt_289)

lemma sqrt_1_10000: "sqrt (1 / 10000) = 1 / 100"
  by (rule real_sqrt_unique) (simp_all add: power2_eq_square)

lemma creeping_step:
  "step creeping_body [platform] smooth_opts =
     \<lparr>res_x = 50, res_y = 80, res_dx = Some 0, res_dy = Some 0, res_speed = 0,
      res_vx = 0, res_vy = 0, contact = True\<rparr>"
proof -
  have ne: "tentativeHits creeping_body [platform] smooth_opts \<noteq> []"
    by (simp add: creeping_hits)
  have d: "dominant [platform_hit] = platform_hit" by (simp add: dominant_def)
  have ov: "obstacleVelocity platform_hit = (0, 0)" by (simp add: obstacleVelocity_def)
  have vn: "new_vn_scalar (1 / 100) 0 1 (3 / 10) 0 (- 1) 0 0 = 0"
    by (simp add: new_vn_scalar_def)
  have v: "vAlong (1 / 100) 0 1 1 (3 / 5) 1 0 0 0 = 1 / 100" by (simp add: vAlong_def)
  have out: "outgoing 1 0 (1 / 100) 0 (- 1) 0 = (1 / 100, 0)" by (simp add: outgoing_def)
  have c: "commit (1 / 100) 0 (1 / 50) = (Some 0, Some 0, 0, 0, 0)"
    by (simp add: commit_def Let_def hypot_def sqrt_1_10000)
  have s: "vx0 creeping_body = 1 / 100" "vy0 creeping_body = 0" by (simp_all add: vx0_def vy0_def)
  show ?thesis
    unfolding step_contact[OF ne] creeping_hits d smooth_opts_values s
    by (simp add: tangent_up ov vn v out c)
qed

text \<open>
  Claim C6, amended. In every resolved contact \<^verbatim>\<open>step\<close> computes the normal velocity
  scalar from the working velocity, gravity, restitution and the dominant hit by the
  two-branch policy: when the velocity of the body relative to the obstacle, projected on
  the normal, is below \<open>-0.10\<close>, the scalar is that projection negated and scaled by the
  restitution, plus the obstacle's normal velocity; otherwise it is the gravity-inclusive
  normal velocity of the body when that is positive, and the obstacle's normal velocity
  when it is not. The obstacle's velocity at the contact point is \<open>(-\<omega> \<Delta>y, \<omega> \<Delta>x)\<close>
  about its rotation centre, and zero for an obstacle without angular velocity. The
  velocity handed to the final block is tangent times tangential scalar plus normal times
  the non-negative part of the normal scalar: the normal component of the returned
  velocity is the scalar when that is not negative, 0 when it is negative, and the whole
  velocity is zero when the speed is below the stop threshold.
\<close>

theorem step_normal_response:
  assumes ne: "tentativeHits state obstacles opts \<noteq> []"
  shows "let h = dominant (tentativeHits state obstacles opts);
             nx = hit_nx h; ny = hit_ny h;
             (obsVx, obsVy) =
               (case rotation (hit_source h) of
                  Some (centerX, centerY, omega) \<Rightarrow>
                    (- omega * (cp_y (hit_cp h) - centerY), omega * (cp_x (hit_cp h) - centerX))
                | None \<Rightarrow> (0, 0));
             vrel = (vx0 state - obsVx) * nx + (vy0 state - obsVy) * ny;
             vobs = obsVx * nx + obsVy * ny;
             vgrav = vx0 state * nx + (vy0 state + gravity opts) * ny;
             vn = (if vrel < - 0.10 then - vrel * restitution opts + vobs
                   else if 0 < vgrav then vgrav else vobs);
             (tx, ty) = tangent nx ny;
             v = vAlong (vx0 state) (vy0 state) (gravity opts) (tangentialFriction opts)
                   (tangentialRetention opts) tx ty obsVx obsVy;
             outVx = tx * v + nx * max 0 vn;
             outVy = ty * v + ny * max 0 vn;
             s = step state obstacles opts
         in (res_dx s, res_dy s, res_speed s, res_vx s, res_vy s)
              = commit outVx outVy (stopThreshold opts) \<and>
            outVx * nx + outVy * ny = max 0 vn \<and>
            (\<not> hypot outVx outVy < stopThreshold opts \<longrightarrow>
               res_vx s * nx + res_vy s * ny = max 0 vn) \<and>
            (hypot outVx outVy < stopThreshold opts \<longrightarrow> res_vx s = 0 \<and> res_vy s = 0)"
proof -
  define h where "h = dominant (tentativeHits state obstacles opts)"
  obtain tx ty where t: "tangent (hit_nx h) (hit_ny h) = (tx, ty)" by fastforce
  obtain obsVx obsVy where ov: "obstacleVelocity h = (obsVx, obsVy)" by fastforce
  have ov': "(case rotation (hit_source h) of
                  Some (centerX, centerY, omega) \<Rightarrow>
                    (- omega * (cp_y (hit_cp h) - centerY), omega * (cp_x (hit_cp h) - centerX))
                | None \<Rightarrow> (0, 0)) = (obsVx, obsVy)"
    using ov by (simp add: obstacleVelocity_eq)
  define vn where "vn =
     (if (vx0 state - obsVx) * hit_nx h + (vy0 state - obsVy) * hit_ny h < - 0.10
      then - ((vx0 state - obsVx) * hit_nx h + (vy0 state - obsVy) * hit_ny h) * restitution opts
           + (obsVx * hit_nx h + obsVy * hit_ny h)
      else if 0 < vx0 state * hit_nx h + (vy0 state + gravity opts) * hit_ny h
           then vx0 state * hit_nx h + (vy0 state + gravity opts) * hit_ny h
           else obsVx * hit_nx h + obsVy * hit_ny h)"
  have vn: "new_vn_scalar (vx0 state) (vy0 state) (gravity opts) (restitution opts)
              (hit_nx h) (hit_ny h) obsVx obsVy = vn"
    by (simp add: new_vn_scalar_def Let_def vn_def)
  define v where "v = vAlong (vx0 state) (vy0 state) (gravity opts) (tangentialFriction opts)
                   (tangentialRetention opts) tx ty obsVx obsVy"
  define ox where "ox = tx * v + hit_nx h * max 0 vn"
  define oy where "oy = ty * v + hit_ny h * max 0 vn"
  from step_contact_kinematics[OF ne]
  have c: "(res_dx (step state obstacles opts), res_dy (step state obstacles opts),
            res_speed (step state obstacles opts), res_vx (step state obstacles opts),
            res_vy (step state obstacles opts)) = commit ox oy (stopThreshold opts)"
    and dn: "ox * hit_nx h + oy * hit_ny h = max 0 vn"
    unfolding Let_def h_def[symmetric] t ov prod.case vn v_def[symmetric]
      ox_def[symmetric] oy_def[symmetric]
    by blast+
  from commit_velocity[OF c[symmetric]] dn
  have fin: "(res_dx (step state obstacles opts), res_dy (step state obstacles opts),
            res_speed (step state obstacles opts), res_vx (step state obstacles opts),
            res_vy (step state obstacles opts)) = commit ox oy (stopThreshold opts) \<and>
      ox * hit_nx h + oy * hit_ny h = max 0 vn \<and>
      (\<not> hypot ox oy < stopThreshold opts \<longrightarrow>
         res_vx (step state obstacles opts) * hit_nx h
           + res_vy (step state obstacles opts) * hit_ny h = max 0 vn) \<and>
      (hypot ox oy < stopThreshold opts \<longrightarrow>
         res_vx (step state obstacles opts) = 0 \<and> res_vy (step state obstacles opts) = 0)"
    using c by auto
  show ?thesis
    unfolding Let_def h_def[symmetric] ov' prod.case t vn_def[symmetric] v_def[symmetric]
      ox_def[symmetric] oy_def[symmetric]
    by (rule fin)
qed

theorem step_normal_response_witness:
  "tentativeHits falling_body [ledge, platform] unit_gravity \<noteq> []
   \<and> dominant (tentativeHits falling_body [ledge, platform] unit_gravity) = platform_hit
   \<and> (0 - 0) * 0 + (2 - 0) * (- 1) < (- 0.10 :: real)
   \<and> \<not> hypot 0 (- (3 / 5)) < stopThreshold unit_gravity
   \<and> res_vx (step falling_body [ledge, platform] unit_gravity) * 0
       + res_vy (step falling_body [ledge, platform] unit_gravity) * (- 1)
       = max 0 (- ((0 - 0) * 0 + (2 - 0) * (- 1)) * (3 / 10) + (0 * 0 + 0 * (- 1)))"
proof -
  have ne: "tentativeHits falling_body [ledge, platform] unit_gravity \<noteq> []"
    by (simp add: falling_hits)
  have d: "dominant (tentativeHits falling_body [ledge, platform] unit_gravity) = platform_hit"
    by (simp add: falling_hits falling_dominant)
  have s: "vx0 falling_body = 0" "vy0 falling_body = 2" by (simp_all add: vx0_def vy0_def)
  have v: "vAlong 0 2 1 (199 / 200) (3 / 5) 1 0 0 0 = 0" by (simp add: vAlong_def)
  have hy: "hypot 0 (- (3 / 5)) = 3 / 5" by (simp add: hypot_def sqrt_9_25)
  from step_normal_response[OF ne]
  have "res_vx (step falling_body [ledge, platform] unit_gravity) * 0
       + res_vy (step falling_body [ledge, platform] unit_gravity) * (- 1) = 3 / 5"
    unfolding d unit_gravity_values s
    by (simp add: Let_def tangent_up v hy)
  with ne d hy show ?thesis by (simp add: stopThreshold_def)
qed

text \<open>
  A body riding a receding platform: the policy's scalar is the obstacle's normal velocity
  \<open>-1/5\<close>, and the velocity returned has normal component 0.
\<close>

theorem step_normal_response_counterexample:
  "tentativeHits carried_body [spinning_platform] smooth_opts = [carried_hit]
   \<and> obstacleVelocity carried_hit = (0, 1 / 5)
   \<and> \<not> (1 - 0) * 0 + (1 / 5 - 1 / 5) * (- 1) < (- 0.10 :: real)
   \<and> \<not> (0 :: real) < 1 * 0 + (1 / 5 + 1) * (- 1)
   \<and> new_vn_scalar 1 (1 / 5) 1 (3 / 10) 0 (- 1) 0 (1 / 5) = 0 * 0 + 1 / 5 * (- 1)
   \<and> step carried_body [spinning_platform] smooth_opts =
       \<lparr>res_x = 60, res_y = 80, res_dx = Some 1, res_dy = Some 0, res_speed = 1,
        res_vx = 1, res_vy = 0, contact = True\<rparr>
   \<and> res_vx (step carried_body [spinning_platform] smooth_opts) * 0
       + res_vy (step carried_body [spinning_platform] smooth_opts) * (- 1)
       \<noteq> 0 * 0 + 1 / 5 * (- 1)"
  by (simp add: carried_hits carried_velocity carried_step new_vn_scalar_def)

text \<open>
  Claim C7, amended. In every resolved contact \<^verbatim>\<open>step\<close> computes the tangential scalar
  along the tangent of the dominant hit as: the relative tangential velocity plus gravity
  along the tangent, scaled by the tangential friction and weighted \<open>1 - retention\<close>, plus
  the relative tangential velocity weighted \<open>retention\<close>, plus the obstacle's tangential
  velocity; when its magnitude is below \<open>0.02\<close> and its sign is opposite to that of the
  tangent's vertical component, it is 0 instead. The velocity handed to the final block has
  this tangential component, and so has the returned velocity unless the speed is below
  the stop threshold, where the returned velocity is zero.
\<close>

theorem step_tangential_response:
  assumes ne: "tentativeHits state obstacles opts \<noteq> []"
  shows "let h = dominant (tentativeHits state obstacles opts);
             nx = hit_nx h; ny = hit_ny h;
             (tx, ty) = tangent nx ny;
             (obsVx, obsVy) = obstacleVelocity h;
             vrelT = (vx0 state - obsVx) * tx + (vy0 state - obsVy) * ty;
             vobsT = obsVx * tx + obsVy * ty;
             raw = (vrelT + gravity opts * ty) * tangentialFriction opts
                     * (1 - tangentialRetention opts)
                   + vrelT * tangentialRetention opts + vobsT;
             v = (if \<bar>raw\<bar> < 0.02 \<and> (raw < 0 \<and> 0 < ty \<or> 0 < raw \<and> ty < 0) then 0 else raw);
             vn = new_vn_scalar (vx0 state) (vy0 state) (gravity opts) (restitution opts)
                    nx ny obsVx obsVy;
             outVx = tx * v + nx * max 0 vn;
             outVy = ty * v + ny * max 0 vn;
             s = step state obstacles opts
         in (res_dx s, res_dy s, res_speed s, res_vx s, res_vy s)
              = commit outVx outVy (stopThreshold opts) \<and>
            outVx * tx + outVy * ty = v \<and>
            (\<not> hypot outVx outVy < stopThreshold opts \<longrightarrow>
               res_vx s * tx + res_vy s * ty = v) \<and>
            (hypot outVx outVy < stopThreshold opts \<longrightarrow> res_vx s = 0 \<and> res_vy s = 0)"
proof -
  define h where "h = dominant (tentativeHits state obstacles opts)"
  obtain tx ty where t: "tangent (hit_nx h) (hit_ny h) = (tx, ty)" by fastforce
  obtain obsVx obsVy where ov: "obstacleVelocity h = (obsVx, obsVy)" by fastforce
  define raw where "raw =
     ((vx0 state - obsVx) * tx + (vy0 state - obsVy) * ty + gravity opts * ty)
        * tangentialFriction opts * (1 - tangentialRetention opts)
     + ((vx0 state - obsVx) * tx + (vy0 state - obsVy) * ty) * tangentialRetention opts
     + (obsVx * tx + obsVy * ty)"
  define v where "v = (if \<bar>raw\<bar> < 0.02 \<and> (raw < 0 \<and> 0 < ty \<or> 0 < raw \<and> ty < 0) then 0 else raw)"
  have sgn: "raw * ty < 0 \<longleftrightarrow> (raw < 0 \<and> 0 < ty \<or> 0 < raw \<and> ty < 0)"
    by (auto simp: mult_less_0_iff)
  have v: "vAlong (vx0 state) (vy0 state) (gravity opts) (tangentialFriction opts)
                   (tangentialRetention opts) tx ty obsVx obsVy = v"
    unfolding vAlong_def Let_def raw_def[symmetric] sgn v_def ..
  define vn where "vn = new_vn_scalar (vx0 state) (vy0 state) (gravity opts) (restitution opts)
                    (hit_nx h) (hit_ny h) obsVx obsVy"
  define ox where "ox = tx * v + hit_nx h * max 0 vn"
  define oy where "oy = ty * v + hit_ny h * max 0 vn"
  from step_contact_kinematics[OF ne]
  have c: "(res_dx (step state obstacles opts), res_dy (step state obstacles opts),
            res_speed (step state obstacles opts), res_vx (step state obstacles opts),
            res_vy (step state obstacles opts)) = commit ox oy (stopThreshold opts)"
    and dt: "ox * tx + oy * ty = v"
    unfolding Let_def h_def[symmetric] t ov prod.case v vn_def[symmetric]
      ox_def[symmetric] oy_def[symmetric]
    by blast+
  from commit_velocity[OF c[symmetric]] dt
  have fin: "(res_dx (step state obstacles opts), res_dy (step state obstacles opts),
            res_speed (step state obstacles opts), res_vx (step state obstacles opts),
            res_vy (step state obstacles opts)) = commit ox oy (stopThreshold opts) \<and>
      ox * tx + oy * ty = v \<and>
      (\<not> hypot ox oy < stopThreshold opts \<longrightarrow>
         res_vx (step state obstacles opts) * tx + res_vy (step state obstacles opts) * ty = v) \<and>
      (hypot ox oy < stopThreshold opts \<longrightarrow>
         res_vx (step state obstacles opts) = 0 \<and> res_vy (step state obstacles opts) = 0)"
    using c by auto
  show ?thesis
    unfolding Let_def h_def[symmetric] t ov prod.case raw_def[symmetric] v_def[symmetric]
      vn_def[symmetric] ox_def[symmetric] oy_def[symmetric]
    by (rule fin)
qed

theorem step_tangential_response_witness:
  "tentativeHits carried_body [spinning_platform] smooth_opts \<noteq> []
   \<and> dominant (tentativeHits carried_body [spinning_platform] smooth_opts) = carried_hit
   \<and> tangent 0 (- 1) = (1, 0)
   \<and> \<not> hypot 1 0 < stopThreshold smooth_opts
   \<and> res_vx (step carried_body [spinning_platform] smooth_opts) * 1
       + res_vy (step carried_body [spinning_platform] smooth_opts) * 0
       = ((1 - 0) * 1 + (1 / 5 - 1 / 5) * 0 + 1 * 0) * 1 * (1 - 3 / 5)
         + ((1 - 0) * 1 + (1 / 5 - 1 / 5) * 0) * (3 / 5) + (0 * 1 + 1 / 5 * 0)"
proof -
  have ne: "tentativeHits carried_body [spinning_platform] smooth_opts \<noteq> []"
    by (simp add: carried_hits)
  have d: "dominant (tentativeHits carried_body [spinning_platform] smooth_opts) = carried_hit"
    by (simp add: carried_hits dominant_def)
  have s: "vx0 carried_body = 1" "vy0 carried_body = 1 / 5" by (simp_all add: vx0_def vy0_def)
  have vn: "new_vn_scalar 1 (1 / 5) 1 (3 / 10) 0 (- 1) 0 (1 / 5) = - (1 / 5)"
    by (simp add: new_vn_scalar_def)
  have hy: "hypot 1 0 = 1" by (simp add: hypot_def)
  from step_tangential_response[OF ne]
  have "res_vx (step carried_body [spinning_platform] smooth_opts) * 1
       + res_vy (step carried_body [spinning_platform] smooth_opts) * 0 = 1"
    unfolding d smooth_opts_values s
    by (simp add: Let_def tangent_up carried_velocity vn hy)
  with ne d hy show ?thesis by (simp add: stopThreshold_def tangent_up)
qed

text \<open>
  A body creeping at speed \<open>1/100\<close> on a platform at rest: the tangential scalar is
  \<open>1/100\<close>, below the stop threshold \<open>1/50\<close>, and the velocity returned is zero.
\<close>

theorem step_tangential_response_counterexample:
  "tentativeHits creeping_body [platform] smooth_opts = [platform_hit]
   \<and> tangent 0 (- 1) = (1, 0)
   \<and> obstacleVelocity platform_hit = (0, 0)
   \<and> ((1 / 100 - 0) * 1 + (0 - 0) * 0 + 1 * 0) * 1 * (1 - 3 / 5)
       + ((1 / 100 - 0) * 1 + (0 - 0) * 0) * (3 / 5) + (0 * 1 + 0 * 0) = (1 / 100 :: real)
   \<and> vAlong (1 / 100) 0 1 1 (3 / 5) 1 0 0 0 = 1 / 100
   \<and> step creeping_body [platform] smooth_opts =
       \<lparr>res_x = 50, res_y = 80, res_dx = Some 0, res_dy = Some 0, res_speed = 0,
        res_vx = 0, res_vy = 0, contact = True\<rparr>
   \<and> res_vx (step creeping_body [platform] smooth_opts) * 1
       + res_vy (step creeping_body [platform] smooth_opts) * 0 \<noteq> 1 / 100"
  by (simp add: creeping_hits tangent_up creeping_step obstacleVelocity_def vAlong_def)

subsection \<open>The invariant of the returned state\<close>

lemma step_commit:
  "\<exists>a b. (res_dx (step state obstacles opts), res_dy (step state obstacles opts),
           res_speed (step state obstacles opts), res_vx (step state obstacles opts),
           res_vy (step state obstacles opts)) = commit a b (stopThreshold opts)"
proof (cases "tentativeHits state obstacles opts = []")
  case True
  then show ?thesis
    by (simp add: step_airborne Let_def split: prod.splits) (metis prod.exhaust)
next
  case False
  then show ?thesis
    by (simp add: step_contact Let_def split: prod.splits) (metis prod.exhaust)
qed

lemma commit_invariant_iff:
  assumes c: "commit a b thr = (dx, dy, sp, vx, vy)"
  shows "((sp = hypot vx vy \<and> sp \<noteq> 0 \<and> dx = Some (vx / sp) \<and> dy = Some (vy / sp))
          \<or> (dx = Some 0 \<and> dy = Some 0 \<and> sp = 0 \<and> vx = 0 \<and> vy = 0))
         \<longleftrightarrow> (0 < thr \<or> vx \<noteq> 0 \<or> vy \<noteq> 0)"
    and "sp \<noteq> 0 \<longrightarrow> (\<exists>ux uy. dx = Some ux \<and> dy = Some uy \<and> ux\<^sup>2 + uy\<^sup>2 = 1)"
proof -
  have nonneg: "0 \<le> hypot a b" by (simp add: hypot_def)
  have zero: "hypot a b = 0 \<longleftrightarrow> a = 0 \<and> b = 0"
    by (simp add: hypot_def sum_squares_eq_zero_iff)
  consider (stop) "hypot a b < thr" | (still) "\<not> hypot a b < thr" "hypot a b = 0"
    | (move) "\<not> hypot a b < thr" "hypot a b \<noteq> 0" by blast
  then have "(((sp = hypot vx vy \<and> sp \<noteq> 0 \<and> dx = Some (vx / sp) \<and> dy = Some (vy / sp))
          \<or> (dx = Some 0 \<and> dy = Some 0 \<and> sp = 0 \<and> vx = 0 \<and> vy = 0))
         \<longleftrightarrow> (0 < thr \<or> vx \<noteq> 0 \<or> vy \<noteq> 0))
     \<and> (sp \<noteq> 0 \<longrightarrow> (\<exists>ux uy. dx = Some ux \<and> dy = Some uy \<and> ux\<^sup>2 + uy\<^sup>2 = 1))"
  proof cases
    case stop
    with c have "dx = Some 0" "dy = Some 0" "sp = 0" "vx = 0" "vy = 0"
      by (auto simp: commit_def Let_def)
    moreover from stop nonneg have "0 < thr" by linarith
    ultimately show ?thesis by simp
  next
    case still
    with c have "dx = None" "sp = 0" "vx = a" "vy = b"
      by (auto simp: commit_def Let_def js_div_def)
    moreover from still zero have "a = 0" "b = 0" by simp_all
    moreover from still have "\<not> 0 < thr" by simp
    ultimately show ?thesis by simp
  next
    case move
    with c have eq: "sp = hypot a b" "vx = a" "vy = b"
      "dx = Some (a / hypot a b)" "dy = Some (b / hypot a b)"
      by (auto simp: commit_def Let_def js_div_def)
    have u: "(a / hypot a b)\<^sup>2 + (b / hypot a b)\<^sup>2 = 1"
      using move(2) unfolding hypot_def by (rule unit_normal)
    from move zero have "a \<noteq> 0 \<or> b \<noteq> 0" by blast
    with eq u move show ?thesis by auto
  qed
  then show "((sp = hypot vx vy \<and> sp \<noteq> 0 \<and> dx = Some (vx / sp) \<and> dy = Some (vy / sp))
          \<or> (dx = Some 0 \<and> dy = Some 0 \<and> sp = 0 \<and> vx = 0 \<and> vy = 0))
         \<longleftrightarrow> (0 < thr \<or> vx \<noteq> 0 \<or> vy \<noteq> 0)"
    and "sp \<noteq> 0 \<longrightarrow> (\<exists>ux uy. dx = Some ux \<and> dy = Some uy \<and> ux\<^sup>2 + uy\<^sup>2 = 1)"
    by blast+
qed

text \<open>
  Claim C8, amended. The state \<^verbatim>\<open>step\<close> returns, from either branch, satisfies the
  invariant of a body state whenever the stop threshold is positive, and more precisely
  exactly when the stop threshold is positive or the returned velocity is not zero. Where
  the returned speed is not zero, the direction is a unit vector.
\<close>

theorem step_body_invariant:
  "(body_invariant (step state obstacles opts) \<longleftrightarrow>
      0 < stopThreshold opts \<or> res_vx (step state obstacles opts) \<noteq> 0
        \<or> res_vy (step state obstacles opts) \<noteq> 0) \<and>
   (res_speed (step state obstacles opts) \<noteq> 0 \<longrightarrow>
      (\<exists>ux uy. res_dx (step state obstacles opts) = Some ux \<and>
               res_dy (step state obstacles opts) = Some uy \<and> ux\<^sup>2 + uy\<^sup>2 = 1))"
proof -
  obtain a b where c: "commit a b (stopThreshold opts) =
      (res_dx (step state obstacles opts), res_dy (step state obstacles opts),
       res_speed (step state obstacles opts), res_vx (step state obstacles opts),
       res_vy (step state obstacles opts))"
    using step_commit[of state obstacles opts] by metis
  show ?thesis
    unfolding body_invariant_def
    using commit_invariant_iff[OF c] by blast
qed

theorem step_body_invariant_witness:
  "0 < stopThreshold unit_gravity
   \<and> body_invariant (step falling_body [ledge, platform] unit_gravity)
   \<and> res_speed (step falling_body [ledge, platform] unit_gravity) = 3 / 5
   \<and> res_dx (step falling_body [ledge, platform] unit_gravity) = Some 0
   \<and> res_dy (step falling_body [ledge, platform] unit_gravity) = Some (- 1)"
proof -
  have pos: "0 < stopThreshold unit_gravity" by (simp add: stopThreshold_def)
  from step_body_invariant[of falling_body "[ledge, platform]" unit_gravity] pos
  have "body_invariant (step falling_body [ledge, platform] unit_gravity)" by blast
  with pos show ?thesis by (simp add: falling_step)
qed

text \<open>
  With a stop threshold of 0 a body at rest is not caught by the stop test, and its
  direction is \<^verbatim>\<open>0 / 0\<close>: neither a unit vector nor zero.
\<close>

theorem step_body_invariant_counterexample:
  "step \<lparr>st_x = 50, st_y = 50, st_dx = 0, st_dy = 0, st_speed = 0, st_r = 15,
       st_vx = Some 0, st_vy = Some 0\<rparr> []
     \<lparr>opt_gravity = Some 0, opt_friction = None, opt_bounds = None, opt_stopThreshold = Some 0,
       opt_restitution = None, opt_tangentialFriction = None, opt_tangentialRetention = None\<rparr>
   = \<lparr>res_x = 50, res_y = 50, res_dx = None, res_dy = None, res_speed = 0, res_vx = 0,
       res_vy = 0, contact = False\<rparr>
   \<and> \<not> body_invariant (step \<lparr>st_x = 50, st_y = 50, st_dx = 0, st_dy = 0, st_speed = 0, st_r = 15,
       st_vx = Some 0, st_vy = Some 0\<rparr> []
     \<lparr>opt_gravity = Some 0, opt_friction = None, opt_bounds = None, opt_stopThreshold = Some 0,
       opt_restitution = None, opt_tangentialFriction = None, opt_tangentialRetention = None\<rparr>)"
proof -
  have s: "step \<lparr>st_x = 50, st_y = 50, st_dx = 0, st_dy = 0, st_speed = 0, st_r = 15,
       st_vx = Some 0, st_vy = Some 0\<rparr> []
     \<lparr>opt_gravity = Some 0, opt_friction = None, opt_bounds = None, opt_stopThreshold = Some 0,
       opt_restitution = None, opt_tangentialFriction = None, opt_tangentialRetention = None\<rparr>
   = \<lparr>res_x = 50, res_y = 50, res_dx = None, res_dy = None, res_speed = 0, res_vx = 0,
       res_vy = 0, contact = False\<rparr>"
    by (simp add: step_def Let_def reflectBounds_def bounds_def vx0_def vy0_def gravity_def
        stopThreshold_def commit_def hypot_def js_div_def)
  show ?thesis unfolding s by (simp add: body_invariant_def)
qed

subsection \<open>The world bounds do not reach the result\<close>

lemma opts_without_bounds:
  "gravity (opts\<lparr>opt_bounds := b\<rparr>) = gravity opts"
  "restitution (opts\<lparr>opt_bounds := b\<rparr>) = restitution opts"
  "stopThreshold (opts\<lparr>opt_bounds := b\<rparr>) = stopThreshold opts"
  "tangentialFriction (opts\<lparr>opt_bounds := b\<rparr>) = tangentialFriction opts"
  "tangentialRetention (opts\<lparr>opt_bounds := b\<rparr>) = tangentialRetention opts"
  by (simp_all add: gravity_def restitution_def stopThreshold_def
      tangentialFriction_def friction_def tangentialRetention_def split: option.splits)

lemma step_ignores_bounds:
  "step state obstacles (opts\<lparr>opt_bounds := b\<rparr>) = step state obstacles (opts\<lparr>opt_bounds := None\<rparr>)"
  unfolding step_def opts_without_bounds
  by (simp add: Let_def split: prod.splits)

text \<open>
  Claim C10. The state \<^verbatim>\<open>step\<close> returns is the same for any two settings of the world
  bounds (present with any width and height, or absent): the bounds handling assigns only
  the local \<^verbatim>\<open>dx\<close> and \<^verbatim>\<open>dy\<close>, and both are overwritten before the result is built.
\<close>

theorem step_bounds_noninterference:
  "step state obstacles (opts\<lparr>opt_bounds := b1\<rparr>) = step state obstacles (opts\<lparr>opt_bounds := b2\<rparr>)"
  by (simp add: step_ignores_bounds[where b = b1] step_ignores_bounds[where b = b2])

text \<open>
  Claim C1 asks that a body at a world bound with outward velocity leaves \<^verbatim>\<open>step\<close> with
  that velocity component flipped, and so stays inside. The code does not do that: a body
  of radius 10 at \<open>x = 98\<close> in a world of width 100, moving right at speed 5, comes back at
  \<open>x = 103\<close> with its velocity unchanged.
\<close>

theorem step_bounds_not_reflected:
  "step \<lparr>st_x = 98, st_y = 50, st_dx = 1, st_dy = 0, st_speed = 5, st_r = 10,
       st_vx = Some 5, st_vy = Some 0\<rparr> []
     \<lparr>opt_gravity = Some 0, opt_friction = None,
       opt_bounds = Some \<lparr>width = 100, height = 100\<rparr>, opt_stopThreshold = None,
       opt_restitution = None, opt_tangentialFriction = None, opt_tangentialRetention = None\<rparr>
   = \<lparr>res_x = 103, res_y = 50, res_dx = Some 1, res_dy = Some 0, res_speed = 5, res_vx = 5,
       res_vy = 0, contact = False\<rparr>"
proof -
  have s25: "sqrt 25 = 5" by (rule real_sqrt_unique) simp_all
  show ?thesis
    by (simp add: step_def Let_def reflectBounds_def bounds_def vx0_def vy0_def gravity_def
        stopThreshold_def commit_def hypot_def js_div_def s25)
qed

end
